(* ===== verification/Prelude.thy ===== *)
theory Prelude
  imports Complex_Main
begin

text \<open>
  Shared vocabulary of the development.
  \<^item> \<open>py_error\<close>: the Python exceptions the program can meet, and \<open>py_error_str\<close>, the
    text \<open>f"{e}"\<close> shows for them.
  \<^item> \<open>container\<close> and \<open>'fig widget\<close>: what a Streamlit script writes to the page. A
    rendered page is the list of \<open>(container, widget)\<close> pairs in the order the script
    emitted them. The figure type is a parameter: the components that build figures
    (Globe, Scatter) and the page (Page) agree on it through this interface.
  \<^item> \<open>('w, 'a) run\<close>: a statement of a Streamlit script, its emitted output and either
    the exception it raised (\<open>Inl\<close>) or its value (\<open>Inr\<close>); \<open>bind_run\<close> sequences
    two statements (an exception skips the rest), \<open>try_except\<close> is Python's
    \<open>try: ... except Exception as e: ...\<close>.
  \<^item> generic lemmas on lists shared by the components.
\<close>

named_theorems run_simps "equations that evaluate a script statement"
named_theorems fmt_simps "equations of the number and string formatting"

subsection \<open>Python exceptions\<close>

datatype py_error =
    KeyError string   \<comment> \<open>the key's \<open>repr\<close>\<close>
  | ValueError string \<comment> \<open>the validator's message, abstracted to its subject\<close>

primrec py_error_str :: "py_error \<Rightarrow> string" where
  "py_error_str (KeyError k) = k"
| "py_error_str (ValueError m) = m"

subsection \<open>The page: containers and widgets\<close>

datatype container = MainArea | Sidebar | Column nat

datatype 'fig widget =
    PageConfig string string string  \<comment> \<open>page title, page icon, layout\<close>
  | Title string
  | Header string
  | Subheader string
  | Markdown string
  | Write string
  | Selectbox string "string list" nat  \<comment> \<open>label, option labels, selected index\<close>
  | Columns "nat list"
  | PlotlyChart 'fig bool               \<comment> \<open>figure, \<open>use_container_width\<close>\<close>
  | Error string

type_synonym 'fig page = "(container \<times> 'fig widget) list"

primrec error_of :: "'fig widget \<Rightarrow> string option" where
  "error_of (PageConfig t i l) = None"
| "error_of (Title s) = None"
| "error_of (Header s) = None"
| "error_of (Subheader s) = None"
| "error_of (Markdown s) = None"
| "error_of (Write s) = None"
| "error_of (Selectbox l os i) = None"
| "error_of (Columns ws) = None"
| "error_of (PlotlyChart f u) = None"
| "error_of (Error s) = Some s"

primrec chart_of :: "'fig widget \<Rightarrow> 'fig option" where
  "chart_of (PageConfig t i l) = None"
| "chart_of (Title s) = None"
| "chart_of (Header s) = None"
| "chart_of (Subheader s) = None"
| "chart_of (Markdown s) = None"
| "chart_of (Write s) = None"
| "chart_of (Selectbox l os i) = None"
| "chart_of (Columns ws) = None"
| "chart_of (PlotlyChart f u) = Some f"
| "chart_of (Error s) = None"

text \<open>The error messages and the charts of a page, in page order.\<close>

fun page_errors :: "'fig page \<Rightarrow> string list" where
  "page_errors [] = []"
| "page_errors ((c, w) # p) =
     (case error_of w of None \<Rightarrow> page_errors p | Some s \<Rightarrow> s # page_errors p)"

fun page_charts :: "'fig page \<Rightarrow> (container \<times> 'fig) list" where
  "page_charts [] = []"
| "page_charts ((c, w) # p) =
     (case chart_of w of None \<Rightarrow> page_charts p | Some f \<Rightarrow> (c, f) # page_charts p)"

subsection \<open>Script statements: output and exceptions\<close>

type_synonym ('w, 'a) run = "'w list \<times> (py_error + 'a)"

definition ret :: "'a \<Rightarrow> ('w, 'a) run" where
  "ret a = ([], Inr a)"

definition raise :: "py_error \<Rightarrow> ('w, 'a) run" where
  "raise e = ([], Inl e)"

definition emit :: "'w list \<Rightarrow> ('w, unit) run" where
  "emit ws = (ws, Inr ())"

definition bind_run :: "('w, 'a) run \<Rightarrow> ('a \<Rightarrow> ('w, 'b) run) \<Rightarrow> ('w, 'b) run" where
  "bind_run m f =
     (case snd m of
        Inl e \<Rightarrow> (fst m, Inl e)
      | Inr a \<Rightarrow> (fst m @ fst (f a), snd (f a)))"

definition try_except :: "('w, 'a) run \<Rightarrow> (py_error \<Rightarrow> ('w, 'a) run) \<Rightarrow> ('w, 'a) run" where
  "try_except m h =
     (case snd m of
        Inl e \<Rightarrow> (fst m @ fst (h e), snd (h e))
      | Inr a \<Rightarrow> m)"

type_synonym ('fig, 'a) script = "(container \<times> 'fig widget, 'a) run"

text \<open>
  A Streamlit call without an explicit container writes to the enclosing one; the model
  tags it \<open>MainArea\<close>, and \<open>with col:\<close> moves those writes into \<open>col\<close>.
  Calls on \<open>st.sidebar\<close> keep their container.
\<close>

definition retag :: "container \<Rightarrow> container \<times> 'fig widget \<Rightarrow> container \<times> 'fig widget" where
  "retag c p = (if fst p = MainArea then (c, snd p) else p)"

definition in_container :: "container \<Rightarrow> ('fig, 'a) script \<Rightarrow> ('fig, 'a) script" where
  "in_container c m = (map (retag c) (fst m), snd m)"

text \<open>A Python loop that applies a fallible call to every element, stopping at the first exception.\<close>

fun run_map :: "('a \<Rightarrow> ('w, 'b) run) \<Rightarrow> 'a list \<Rightarrow> ('w, 'b list) run" where
  "run_map f [] = ret []"
| "run_map f (x # xs) = bind_run (f x) (\<lambda>y. bind_run (run_map f xs) (\<lambda>ys. ret (y # ys)))"

subsection \<open>Laws of the statement combinators\<close>

lemma bind_run_ret [simp, run_simps]: "bind_run (ret a) f = f a"
  by (simp add: bind_run_def ret_def)

lemma bind_run_ret_right [simp]: "bind_run m ret = m"
  by (cases m) (auto simp: bind_run_def ret_def split: sum.split)

lemma bind_run_assoc:
  "bind_run (bind_run m f) g = bind_run m (\<lambda>a. bind_run (f a) g)"
  by (cases m) (auto simp: bind_run_def split: sum.split)

lemma bind_run_raise [simp, run_simps]: "bind_run (raise e) f = raise e"
  by (simp add: bind_run_def raise_def)

lemma bind_run_emit [simp, run_simps]:
  "bind_run (emit ws) f = (ws @ fst (f ()), snd (f ()))"
  by (simp add: bind_run_def emit_def)

lemma bind_run_pair [simp, run_simps]:
  "bind_run (out, Inr a) f = (out @ fst (f a), snd (f a))"
  "bind_run (out, Inl e) f = (out, Inl e)"
  by (simp_all add: bind_run_def)

lemma try_except_ok [simp, run_simps]: "try_except (out, Inr a) h = (out, Inr a)"
  by (simp add: try_except_def)

lemma try_except_err [simp, run_simps]:
  "try_except (out, Inl e) h = (out @ fst (h e), snd (h e))"
  by (simp add: try_except_def)

lemma try_except_fst: "fst (try_except m h) = fst m @ (case snd m of Inl e \<Rightarrow> fst (h e) | Inr a \<Rightarrow> [])"
  by (cases m) (simp split: sum.split)

lemma fst_bind_run_prefix: "\<exists>ys. fst (bind_run m f) = fst m @ ys"
  by (auto simp: bind_run_def split: sum.split)

lemma in_container_pair [simp, run_simps]:
  "in_container c (out, r) = (map (retag c) out, r)"
  by (simp add: in_container_def)

lemma retag_simps [simp, run_simps]:
  "retag c (MainArea, w) = (c, w)"
  "retag c (Sidebar, w) = (Sidebar, w)"
  "retag c (Column n, w) = (Column n, w)"
  by (simp_all add: retag_def)

lemma page_errors_append [simp]: "page_errors (p @ q) = page_errors p @ page_errors q"
  by (induction p rule: page_errors.induct) (auto split: option.split)

lemma page_charts_append [simp]: "page_charts (p @ q) = page_charts p @ page_charts q"
  by (induction p rule: page_charts.induct) (auto split: option.split)

lemma run_map_ret:
  "(\<And>x. x \<in> set xs \<Longrightarrow> f x = ret (g x)) \<Longrightarrow> run_map f xs = ret (map g xs)"
  by (induction xs) auto

subsection \<open>Lists\<close>

lemma filter_key_singleton:
  assumes "distinct (map f xs)" and "x \<in> set xs"
  shows "filter (\<lambda>y. f y = f x) xs = [x]"
  using assms by (induction xs) (auto simp: filter_empty_conv image_iff)

lemma filter_neq_id [simp]: "c \<notin> set xs \<Longrightarrow> filter (\<lambda>x. x \<noteq> c) xs = xs"
  by (induction xs) auto

lemma filter_key_empty:
  "k \<notin> f ` set xs \<Longrightarrow> filter (\<lambda>y. f y = k) xs = []"
  by (auto simp: filter_empty_conv)

lemma alist_eqI:
  "distinct (map fst xs) \<Longrightarrow> map fst xs = map fst ys \<Longrightarrow> map_of xs = map_of ys \<Longrightarrow> xs = ys"
proof (induction xs arbitrary: ys)
  case Nil
  then show ?case by simp
next
  case (Cons p xs)
  obtain a b where p: "p = (a, b)" by fastforce
  from Cons.prems(2) p obtain c ys' where ys: "ys = (a, c) # ys'" "map fst xs = map fst ys'"
    by (cases ys) auto
  have bc: "b = c" using fun_cong [OF Cons.prems(3), of a] p ys by simp
  have "map_of xs = map_of ys'"
  proof
    fix k
    show "map_of xs k = map_of ys' k"
    proof (cases "k = a")
      case True
      have "a \<notin> set (map fst ys')" using Cons.prems(1) p ys(2) by simp
      with True Cons.prems(1) p show ?thesis by (simp add: map_of_eq_None_iff [THEN iffD2])
    next
      case False
      then show ?thesis using fun_cong [OF Cons.prems(3), of k] p ys by simp
    qed
  qed
  with Cons.IH [of ys'] Cons.prems(1) ys bc p show ?case by simp
qed

end
