(* ===== verification/Dataset.thy ===== *)
theory Dataset
  imports Prelude
begin

text \<open>
  The dataset of \<open>src/hackuwo24.py\<close> (lines 8--166): the module-level
  \<open>typhoon_data = pd.DataFrame([...])\<close>, one row per dictionary literal, in source order.
  A row is the record \<open>typhoon\<close>, one field per column. Python's integers are \<open>int\<close>.
  Latitude and longitude are Python floats written with at most four decimals in the
  source; they are held exactly as integers counting ten-thousandths of a degree
  (\<open>11.2426\<close> is \<open>112426\<close>), so that the \<open>.4f\<close> rendering of the globe's hover
  text is a function of the stored value. \<open>wf_dataset\<close> is the data-model invariant the
  spec states (coordinates in range, positive wind speed, non-negative money and
  casualties, unique names); the table satisfies it.
\<close>

record typhoon =
  name :: string
  year :: int
  latitude :: int   \<comment> \<open>ten-thousandths of a degree\<close>
  longitude :: int  \<comment> \<open>ten-thousandths of a degree\<close>
  wind_speed :: int
  pressure :: int
  category :: string
  region :: string
  damage_estimate_usd :: int
  fatalities :: int
  description :: string

definition typhoon_data :: "typhoon list" where
  "typhoon_data =
  [
   \<lparr>name = ''Typhoon Haiyan'', year = 2013, latitude = 112426, longitude = 1250324,
    wind_speed = 195, pressure = 895, category = ''Super Typhoon'',
    region = ''Philippines'', damage_estimate_usd = 14000000000, fatalities = 6300,
    description =
      ''One of the most powerful tropical cyclones ever recorded, causing catastrophic damage in the Philippines.''\<rparr>,
   \<lparr>name = ''Typhoon Mangkhut'', year = 2018, latitude = 201939, longitude = 1215450,
    wind_speed = 165, pressure = 905, category = ''Super Typhoon'',
    region = ''Philippines/China'', damage_estimate_usd = 4000000000, fatalities = 200,
    description =
      ''A powerful typhoon that caused significant damage across the Philippines and Southern China.''\<rparr>,
   \<lparr>name = ''Typhoon Melor'', year = 2015, latitude = 136929, longitude = 1250324,
    wind_speed = 140, pressure = 925, category = ''Typhoon'',
    region = ''Philippines'', damage_estimate_usd = 250000000, fatalities = 45,
    description =
      ''A typhoon that impacted the Philippines, causing moderate damage and loss of life.''\<rparr>,
   \<lparr>name = ''Typhoon Hagibis'', year = 2019, latitude = 356762, longitude = 1396503,
    wind_speed = 160, pressure = 915, category = ''Super Typhoon'',
    region = ''Japan'', damage_estimate_usd = 15000000000, fatalities = 86,
    description =
      ''A devastating typhoon that caused extensive damage and flooding in Japan.''\<rparr>,
   \<lparr>name = ''Typhoon Meranti'', year = 2016, latitude = 219314, longitude = 1206354,
    wind_speed = 190, pressure = 890, category = ''Super Typhoon'',
    region = ''Taiwan'', damage_estimate_usd = 1500000000, fatalities = 64,
    description =
      ''An extremely powerful typhoon that impacted Taiwan with intense winds.''\<rparr>,
   \<lparr>name = ''Typhoon Jebi'', year = 2018, latitude = 344333, longitude = 1353333,
    wind_speed = 155, pressure = 910, category = ''Super Typhoon'',
    region = ''Japan'', damage_estimate_usd = 12000000000, fatalities = 17,
    description =
      ''A destructive typhoon that caused significant damage in the Kansai region of Japan.''\<rparr>,
   \<lparr>name = ''Typhoon Yutu'', year = 2018, latitude = 152267, longitude = 1461029,
    wind_speed = 180, pressure = 900, category = ''Super Typhoon'',
    region = ''Northern Mariana Islands'', damage_estimate_usd = 600000000, fatalities = 4,
    description =
      ''A powerful typhoon that devastated the Northern Mariana Islands.''\<rparr>,
   \<lparr>name = ''Typhoon Lan'', year = 2017, latitude = 330121, longitude = 1389719,
    wind_speed = 155, pressure = 910, category = ''Super Typhoon'',
    region = ''Japan'', damage_estimate_usd = 3000000000, fatalities = 23,
    description =
      ''A significant typhoon that impacted Japan with strong winds and heavy rainfall.''\<rparr>,
   \<lparr>name = ''Typhoon Goni'', year = 2020, latitude = 136594, longitude = 1238650,
    wind_speed = 165, pressure = 905, category = ''Super Typhoon'',
    region = ''Philippines'', damage_estimate_usd = 1200000000, fatalities = 25,
    description =
      ''A powerful typhoon that caused significant destruction in the Philippines.''\<rparr>,
   \<lparr>name = ''Typhoon Amphan'', year = 2020, latitude = 202938, longitude = 885431,
    wind_speed = 165, pressure = 905, category = ''Super Typhoon'',
    region = ''India/Bangladesh'', damage_estimate_usd = 13000000000, fatalities = 128,
    description =
      ''A catastrophic cyclone that caused extensive damage in India and Bangladesh.''\<rparr>,
   \<lparr>name = ''Typhoon Soudelor'', year = 2015, latitude = 207535, longitude = 1268785,
    wind_speed = 180, pressure = 890, category = ''Super Typhoon'',
    region = ''Taiwan/China'', damage_estimate_usd = 3500000000, fatalities = 56,
    description =
      ''A powerful typhoon that impacted Taiwan and Eastern China.''\<rparr>,
   \<lparr>name = ''Typhoon Talim'', year = 2016, latitude = 242577, longitude = 1229927,
    wind_speed = 150, pressure = 920, category = ''Typhoon'',
    region = ''Japan'', damage_estimate_usd = 500000000, fatalities = 7,
    description =
      ''A typhoon that caused moderate damage in southern Japan.''\<rparr>
  ]"

subsection \<open>The data-model invariant\<close>

definition wf_typhoon :: "typhoon \<Rightarrow> bool" where
  "wf_typhoon t \<longleftrightarrow>
     - 900000 \<le> latitude t \<and> latitude t \<le> 900000 \<and>
     - 1800000 \<le> longitude t \<and> longitude t \<le> 1800000 \<and>
     0 < wind_speed t \<and> 0 \<le> damage_estimate_usd t \<and> 0 \<le> fatalities t"

definition wf_dataset :: "typhoon list \<Rightarrow> bool" where
  "wf_dataset ds \<longleftrightarrow> list_all wf_typhoon ds \<and> distinct (map name ds)"

lemma wf_dataset_distinct [simp]: "wf_dataset ds \<Longrightarrow> distinct (map name ds)"
  by (simp add: wf_dataset_def)

lemma wf_dataset_member:
  "wf_dataset ds \<Longrightarrow> t \<in> set ds \<Longrightarrow> wf_typhoon t"
  by (simp add: wf_dataset_def list_all_iff)

lemma wf_dataset_wind_nonneg:
  "wf_dataset ds \<Longrightarrow> t \<in> set ds \<Longrightarrow> 0 \<le> wind_speed t"
  using wf_dataset_member [of ds t] by (simp add: wf_typhoon_def)

lemma wf_dataset_fatalities_nonneg:
  "wf_dataset ds \<Longrightarrow> t \<in> set ds \<Longrightarrow> 0 \<le> fatalities t"
  using wf_dataset_member [of ds t] by (simp add: wf_typhoon_def)

subsection \<open>The table satisfies the invariant\<close>

lemma typhoon_data_wf_dataset: "wf_dataset typhoon_data"
  by (simp add: wf_dataset_def wf_typhoon_def typhoon_data_def)

lemma typhoon_data_names_distinct: "distinct (map name typhoon_data)"
  using typhoon_data_wf_dataset by (simp add: wf_dataset_def)

end
