(* ===== verification/Frame.thy ===== *)
theory Frame
  imports Dataset
begin

text \<open>
  The table operations \<open>main\<close> performs on \<open>typhoon_data\<close> (\<open>src/hackuwo24.py\<close>):
  \<^item> line 262, \<open>typhoon_info = {row['name']: row for _, row in typhoon_data.iterrows()}\<close>:
    a Python dict, which keeps its keys in first-insertion order and lets a later
    assignment to an existing key replace the value in place. It is \<open>pydict\<close>, an
    association list, with \<open>dict_set\<close> (assignment), \<open>dict_get\<close> (lookup) and
    \<open>dict_keys\<close> (\<open>list(d.keys())\<close>); \<open>typhoon_info\<close> is the comprehension.
  \<^item> line 270, \<open>typhoon_info[selected_typhoon]\<close>: \<open>dict_getitem\<close>, which raises
    \<open>KeyError\<close> for a missing key; the select box returns \<open>None\<close> when it has no
    options, so the key is a \<open>string option\<close>.
  \<^item> line 277, \<open>typhoon_data[typhoon_data['name'] == selected_typhoon]\<close>: the
    boolean-mask selection \<open>filter_name\<close>, which keeps every matching row in table
    order.
  The abstract view of the dict is the map \<open>dict_get\<close>: the comprehension refines
  "the last row with that name" (C3), and under unique names it is the rows' own
  association list (C7). \<open>dict_of_rows\<close> is a reference construction of the same
  dict from the table (keys in first-occurrence order, each with its last row), and the
  fold over \<open>dict_set\<close> equals it (C16).
\<close>

type_synonym ('k, 'v) pydict = "('k \<times> 'v) list"

fun dict_set :: "('k, 'v) pydict \<Rightarrow> 'k \<Rightarrow> 'v \<Rightarrow> ('k, 'v) pydict" where
  "dict_set [] k v = [(k, v)]"
| "dict_set ((k', v') # d) k v = (if k' = k then (k', v) # d else (k', v') # dict_set d k v)"

definition dict_get :: "('k, 'v) pydict \<Rightarrow> 'k \<Rightarrow> 'v option" where
  "dict_get d = map_of d"

definition dict_keys :: "('k, 'v) pydict \<Rightarrow> 'k list" where
  "dict_keys d = map fst d"

definition py_repr_key :: "string option \<Rightarrow> string" where
  "py_repr_key k = (case k of None \<Rightarrow> ''None'' | Some s \<Rightarrow> CHR 0x27 # s @ [CHR 0x27])"

definition dict_getitem :: "(string, 'v) pydict \<Rightarrow> string option \<Rightarrow> ('w, 'v) run" where
  "dict_getitem d k =
     (case k of
        None \<Rightarrow> raise (KeyError (py_repr_key k))
      | Some s \<Rightarrow> (case dict_get d s of
                    None \<Rightarrow> raise (KeyError (py_repr_key k))
                  | Some v \<Rightarrow> ret v))"

definition typhoon_info :: "typhoon list \<Rightarrow> (string, typhoon) pydict" where
  "typhoon_info ds = fold (\<lambda>row d. dict_set d (name row) row) ds []"

definition filter_name :: "typhoon list \<Rightarrow> string \<Rightarrow> typhoon list" where
  "filter_name ds n = filter (\<lambda>row. name row = n) ds"

text \<open>A reference construction of the comprehension's dict, for the equivalence below.\<close>

definition dict_of_rows :: "typhoon list \<Rightarrow> (string, typhoon) pydict" where
  "dict_of_rows ds = map (\<lambda>n. (n, last (filter_name ds n))) (rev (remdups (rev (map name ds))))"

subsection \<open>The dict operations\<close>

lemma dict_get_dict_set [simp]: "dict_get (dict_set d k v) = (dict_get d)(k \<mapsto> v)"
  by (induction d k v rule: dict_set.induct) (auto simp: dict_get_def fun_eq_iff)

lemma dict_keys_dict_set:
  "dict_keys (dict_set d k v) = (if k \<in> set (dict_keys d) then dict_keys d else dict_keys d @ [k])"
  by (induction d k v rule: dict_set.induct) (auto simp: dict_keys_def)

lemma dict_get_Nil [simp]: "dict_get [] = Map.empty"
  by (simp add: dict_get_def)

lemma dict_keys_Nil [simp]: "dict_keys [] = []"
  by (simp add: dict_keys_def)

lemma dom_dict_get: "dom (dict_get d) = set (dict_keys d)"
  by (simp add: dict_get_def dict_keys_def dom_map_of_conv_image_fst)

lemma dict_getitem_Some [run_simps]:
  "dict_get d s = Some v \<Longrightarrow> dict_getitem d (Some s) = ret v"
  by (simp add: dict_getitem_def)

lemma dict_getitem_None [run_simps]:
  "dict_getitem d None = raise (KeyError ''None'')"
  by (simp add: dict_getitem_def py_repr_key_def)

lemma dict_getitem_key:
  "k \<in> set (dict_keys d) \<Longrightarrow> dict_getitem d (Some k) = ret (the (dict_get d k))"
proof -
  assume "k \<in> set (dict_keys d)"
  then obtain v where "dict_get d k = Some v" using dom_dict_get [of d] by blast
  then show ?thesis by (simp add: dict_getitem_Some)
qed

subsection \<open>The comprehension: lookup and keys\<close>

lemma fold_dict_set_get:
  "dict_get (fold (\<lambda>row d. dict_set d (name row) row) ds d0) n =
     (if filter_name ds n = [] then dict_get d0 n else Some (last (filter_name ds n)))"
  by (induction ds arbitrary: d0 rule: rev_induct) (auto simp: filter_name_def)

lemma fold_dict_set_keys:
  "dict_keys (fold (\<lambda>row d. dict_set d (name row) row) ds d0) =
     dict_keys d0 @ [n \<leftarrow> rev (remdups (rev (map name ds))). n \<notin> set (dict_keys d0)]"
  by (induction ds arbitrary: d0 rule: rev_induct) (auto simp: dict_keys_dict_set)

lemma typhoon_info_keys_distinct: "distinct (dict_keys (typhoon_info ds))"
  by (simp add: typhoon_info_def fold_dict_set_keys)

lemma set_typhoon_info_keys [simp]: "set (dict_keys (typhoon_info ds)) = name ` set ds"
  by (auto simp: typhoon_info_def fold_dict_set_keys)

lemma filter_name_unique_aux:
  "distinct (map name ds) \<Longrightarrow> t \<in> set ds \<Longrightarrow> filter_name ds (name t) = [t]"
  using filter_key_singleton [of name ds t] by (simp add: filter_name_def)

lemma typhoon_info_keys_names:
  "distinct (map name ds) \<Longrightarrow> dict_keys (typhoon_info ds) = map name ds"
  by (simp add: typhoon_info_def fold_dict_set_keys distinct_remdups_id)

lemma typhoon_info_get_row:
  assumes "distinct (map name ds)" and "t \<in> set ds"
  shows "dict_get (typhoon_info ds) (name t) = Some t"
  using filter_name_unique_aux [OF assms] by (simp add: typhoon_info_def fold_dict_set_get)

subsection \<open>Properties of the lookup and the filter\<close>

text \<open>
  C3: the dict built by the comprehension maps a name to the last row of the table with
  that name, and to nothing when no row has it: a later duplicate silently replaces an
  earlier one, the behaviour the detail panel inherits.
\<close>

theorem dict_get_typhoon_info:
  "dict_get (typhoon_info ds) n =
     (if filter_name ds n = [] then None else Some (last (filter_name ds n)))"
  by (simp add: typhoon_info_def fold_dict_set_get)

text \<open>
  C7: with pairwise distinct names, the comprehension is the table's own association
  list from name to row, and the select box's option list is the names in table order.
\<close>

theorem typhoon_info_distinct_names:
  assumes "distinct (map name ds)"
  shows "dict_get (typhoon_info ds) = map_of (map (\<lambda>r. (name r, r)) ds) \<and>
         dict_keys (typhoon_info ds) = map name ds"
proof
  have "map_of (map (\<lambda>r. (name r, r)) ds) n =
          (if filter_name ds n = [] then None else Some (last (filter_name ds n)))" for n
  proof (cases "n \<in> name ` set ds")
    case True
    then obtain t where t: "t \<in> set ds" "n = name t" by auto
    have "distinct (map fst (map (\<lambda>r. (name r, r)) ds))"
      using assms by (simp add: o_def)
    then have "map_of (map (\<lambda>r. (name r, r)) ds) n = Some t"
      using t by (auto intro: map_of_is_SomeI)
    with t show ?thesis
      using filter_name_unique_aux [OF assms t(1)] by simp
  next
    case False
    then show ?thesis
      by (auto simp: filter_name_def filter_empty_conv map_of_eq_None_iff)
  qed
  then show "dict_get (typhoon_info ds) = map_of (map (\<lambda>r. (name r, r)) ds)"
    by (simp add: fun_eq_iff typhoon_info_def fold_dict_set_get)
next
  have "rev (remdups (rev (map name ds))) = map name ds"
    using assms by (simp add: distinct_remdups_id)
  then show "dict_keys (typhoon_info ds) = map name ds"
    by (simp add: typhoon_info_def fold_dict_set_keys)
qed

theorem typhoon_info_distinct_names_witness:
  "distinct (map name typhoon_data) \<and>
   dict_keys (typhoon_info typhoon_data) = map name typhoon_data"
proof -
  have d: "distinct (map name typhoon_data)"
    by (rule typhoon_data_names_distinct)
  show ?thesis using typhoon_info_distinct_names [OF d] d by simp
qed

text \<open>
  C8: with pairwise distinct names, selecting the rows whose name is that of a row of
  the table yields exactly that row.
\<close>

theorem filter_name_unique:
  assumes "distinct (map name ds)" and "t \<in> set ds"
  shows "filter_name ds (name t) = [t]"
  using assms by (rule filter_name_unique_aux)

theorem filter_name_unique_witness:
  "filter_name typhoon_data (name (typhoon_data ! 5)) = [typhoon_data ! 5]"
proof -
  have d: "distinct (map name typhoon_data)"
    by (rule typhoon_data_names_distinct)
  have m: "typhoon_data ! 5 \<in> set typhoon_data"
    by (simp add: typhoon_data_def)
  show ?thesis by (rule filter_name_unique [OF d m])
qed

text \<open>
  C16: the comprehension, a fold of dict assignments over the rows, is equal (as an
  association list, so in key order too) to the reference dict: one entry per distinct
  name, in order of first occurrence, holding the last row with that name.
\<close>

theorem typhoon_info_reference: "typhoon_info ds = dict_of_rows ds"
proof (rule alist_eqI)
  show "distinct (map fst (typhoon_info ds))"
    using typhoon_info_keys_distinct by (simp add: dict_keys_def)
  show "map fst (typhoon_info ds) = map fst (dict_of_rows ds)"
    using fold_dict_set_keys [of ds "[]"]
    by (simp add: typhoon_info_def dict_of_rows_def dict_keys_def o_def)
  show "map_of (typhoon_info ds) = map_of (dict_of_rows ds)"
    using fold_dict_set_get [of ds "[]"]
    by (auto simp: fun_eq_iff typhoon_info_def dict_of_rows_def dict_get_def map_of_map_restrict
          restrict_map_def filter_name_def filter_empty_conv)
qed

end
