(* ===== verification/Format.thy ===== *)
theory Format
  imports Prelude
begin

text \<open>
  The number rendering of \<open>src/hackuwo24.py\<close>:
  \<^item> \<open>py_str_int\<close>: Python's \<open>str\<close> of an integer, what \<open>f"{x}"\<close> shows for the
    year, wind speed, pressure and fatalities (lines 266, 290--302);
  \<^item> \<open>py_format_comma\<close>: the format spec \<open>,\<close> of line 300,
    \<open>f"{damage_estimate_usd:,}"\<close>: the decimal digits grouped by threes from the right
    with commas (\<open>group3\<close> works on the reversed digit string);
  \<^item> \<open>fmt_fixed4\<close>: the \<open>.4f\<close> format of the globe's hover template (line 198),
    applied to a coordinate held in ten-thousandths of a degree.
  Strings are byte strings (\<open>char list\<close>); every character produced here is ASCII.
  The reading side (\<open>parse_nat\<close>, \<open>parse_int\<close>, \<open>parse_fixed4\<close>) exists for the
  round-trip theorems: the text shown determines the number.
\<close>

definition digit_char :: "nat \<Rightarrow> char" where
  "digit_char d = ''0123456789'' ! d"

fun show_nat :: "nat \<Rightarrow> string" where
  "show_nat n = (if n < 10 then [digit_char n] else show_nat (n div 10) @ [digit_char (n mod 10)])"

declare show_nat.simps [simp del]

definition py_str_int :: "int \<Rightarrow> string" where
  "py_str_int i = (if i < 0 then ''-'' @ show_nat (nat (- i)) else show_nat (nat i))"

fun group3 :: "string \<Rightarrow> string" where
  "group3 (a # b # c # d # r) = a # b # c # CHR '','' # group3 (d # r)"
| "group3 r = r"

definition py_format_comma :: "int \<Rightarrow> string" where
  "py_format_comma i = (if i < 0 then ''-'' else []) @ rev (group3 (rev (show_nat (nat \<bar>i\<bar>))))"

definition pad4 :: "string \<Rightarrow> string" where
  "pad4 s = replicate (4 - length s) (CHR ''0'') @ s"

definition fmt_fixed4 :: "int \<Rightarrow> string" where
  "fmt_fixed4 i =
     (if i < 0 then ''-'' else []) @ show_nat (nat \<bar>i\<bar> div 10000) @ ''.'' @
     pad4 (show_nat (nat \<bar>i\<bar> mod 10000))"

subsection \<open>Reading numbers back\<close>

definition digit_val :: "char \<Rightarrow> nat" where
  "digit_val c = of_char c - 48"

definition parse_nat :: "string \<Rightarrow> nat" where
  "parse_nat s = foldl (\<lambda>acc c. 10 * acc + digit_val c) 0 s"

definition parse_int :: "string \<Rightarrow> int" where
  "parse_int s = (case s of c # r \<Rightarrow> if c = CHR ''-'' then - int (parse_nat r) else int (parse_nat s)
                           | [] \<Rightarrow> 0)"

definition parse_fixed4 :: "string \<Rightarrow> int" where
  "parse_fixed4 s = parse_int (filter (\<lambda>c. c \<noteq> CHR ''.'') s)"

definition is_dec_digit :: "char \<Rightarrow> bool" where
  "is_dec_digit c \<longleftrightarrow> (48::nat) \<le> of_char c \<and> of_char c < (58::nat)"

subsection \<open>Digits\<close>

lemma of_char_digit_char: "d < 10 \<Longrightarrow> (of_char (digit_char d) :: nat) = 48 + d"
  unfolding digit_char_def by (auto simp: less_Suc_eq numeral_eq_Suc)

lemma digit_val_digit_char [simp, fmt_simps]: "d < 10 \<Longrightarrow> digit_val (digit_char d) = d"
  by (simp add: digit_val_def of_char_digit_char)

lemma is_dec_digit_digit_char [simp]: "d < 10 \<Longrightarrow> is_dec_digit (digit_char d)"
  by (simp add: is_dec_digit_def of_char_digit_char)

lemma parse_nat_snoc [simp]: "parse_nat (s @ [c]) = 10 * parse_nat s + digit_val c"
  by (simp add: parse_nat_def)

lemma parse_nat_Nil [simp]: "parse_nat [] = 0"
  by (simp add: parse_nat_def)

lemma show_nat_digits: "c \<in> set (show_nat n) \<Longrightarrow> is_dec_digit c"
  by (induction n rule: show_nat.induct) (subst (asm) show_nat.simps, auto split: if_splits)

lemma show_nat_not_Nil [simp]: "show_nat n \<noteq> []"
  by (subst show_nat.simps) simp

lemma parse_show_nat [simp]: "parse_nat (show_nat n) = n"
  by (induction n rule: show_nat.induct) (subst show_nat.simps, simp add: parse_nat_def)

lemma is_dec_digit_not_special [simp]:
  "is_dec_digit c \<Longrightarrow> c \<noteq> CHR '',''"
  "is_dec_digit c \<Longrightarrow> c \<noteq> CHR ''.''"
  "is_dec_digit c \<Longrightarrow> c \<noteq> CHR ''-''"
  by (auto simp: is_dec_digit_def)

lemma show_nat_no_comma [simp]: "CHR '','' \<notin> set (show_nat n)"
  using show_nat_digits is_dec_digit_not_special(1) by blast

lemma show_nat_no_dot [simp]: "CHR ''.'' \<notin> set (show_nat n)"
  using show_nat_digits is_dec_digit_not_special(2) by blast

lemma show_nat_hd [simp]: "hd (show_nat n) \<noteq> CHR ''-''"
  by (metis hd_in_set show_nat_not_Nil show_nat_digits is_dec_digit_not_special(3))

lemma parse_nat_append:
  "parse_nat (xs @ ys) = parse_nat xs * 10 ^ length ys + parse_nat ys"
  by (induction ys rule: rev_induct) (simp_all flip: append_assoc add: algebra_simps)

lemma parse_nat_zeros [simp]: "parse_nat (replicate k (CHR ''0'') @ s) = parse_nat s"
proof -
  have "parse_nat (replicate k (CHR ''0'')) = 0"
    by (induction k) (simp_all add: parse_nat_def digit_val_def)
  then show ?thesis by (simp add: parse_nat_append)
qed

lemma length_show_nat_le: "n < 10 ^ k \<Longrightarrow> 0 < k \<Longrightarrow> length (show_nat n) \<le> k"
proof (induction n arbitrary: k rule: show_nat.induct)
  case (1 n)
  show ?case
  proof (cases "n < 10")
    case True
    with "1.prems" show ?thesis by (subst show_nat.simps) simp
  next
    case False
    from "1.prems" obtain k' where k: "k = Suc k'" by (cases k) auto
    have "0 < k'"
    proof (rule ccontr)
      assume "\<not> 0 < k'"
      with k "1.prems" have "n < 10" by simp
      with False show False by simp
    qed
    from "1.prems" k have "n div 10 < 10 ^ k'"
      by (simp add: div_less_iff_less_mult mult.commute)
    with "1.IH" False \<open>0 < k'\<close> have "length (show_nat (n div 10)) \<le> k'" by simp
    with False k show ?thesis by (subst show_nat.simps) simp
  qed
qed

lemma parse_int_minus [simp]: "parse_int (CHR ''-'' # s) = - int (parse_nat s)"
  by (simp add: parse_int_def)

lemma parse_int_show_nat [simp]: "parse_int (show_nat n) = int n"
proof -
  obtain c r where cr: "show_nat n = c # r" using show_nat_not_Nil by (cases "show_nat n") auto
  moreover have "c \<noteq> CHR ''-''" using show_nat_hd [of n] cr by simp
  ultimately show ?thesis using parse_show_nat [of n] by (simp add: parse_int_def)
qed

lemma parse_py_str_int [simp]: "parse_int (py_str_int i) = i"
  by (simp add: py_str_int_def)

lemma is_dec_digit_not_blank [simp]:
  "is_dec_digit c \<Longrightarrow> c \<noteq> CHR 0x0A" "is_dec_digit c \<Longrightarrow> c \<noteq> CHR '' ''"
  by (auto simp: is_dec_digit_def)

lemma show_nat_no_blank [simp]: "CHR 0x0A \<notin> set (show_nat n)" "CHR '' '' \<notin> set (show_nat n)"
  using show_nat_digits is_dec_digit_not_blank by blast+

lemma py_str_int_no_blank [simp]:
  "CHR 0x0A \<notin> set (py_str_int i)" "CHR '' '' \<notin> set (py_str_int i)"
  by (simp_all add: py_str_int_def)

lemma takeWhile_py_str_int [simp]:
  "takeWhile (\<lambda>c. c \<noteq> CHR '' '') (py_str_int i @ CHR '' '' # r) = py_str_int i"
proof -
  have "\<forall>c \<in> set (py_str_int i). c \<noteq> CHR '' ''" by auto
  then show ?thesis by (simp add: takeWhile_append2)
qed

subsection \<open>Grouping by threes\<close>

lemma group3_filter [simp]:
  "CHR '','' \<notin> set ds \<Longrightarrow> filter (\<lambda>c. c \<noteq> CHR '','') (group3 ds) = ds"
  by (induction ds rule: group3.induct) auto

lemma set_group3: "set (group3 ds) \<subseteq> insert (CHR '','') (set ds)"
  by (induction ds rule: group3.induct) auto

lemma py_format_comma_no_nl [simp]: "CHR 0x0A \<notin> set (py_format_comma i)"
  using set_group3 [of "rev (show_nat (nat \<bar>i\<bar>))"] by (auto simp: py_format_comma_def)

lemma py_format_comma_filter [simp]:
  "filter (\<lambda>c. c \<noteq> CHR '','') (py_format_comma i) = py_str_int i"
proof -
  have "filter (\<lambda>c. c \<noteq> CHR '','') (rev (group3 (rev (show_nat n)))) = show_nat n" for n
    by (simp add: rev_filter [symmetric])
  then show ?thesis by (simp add: py_format_comma_def py_str_int_def)
qed

lemma length_group3: "length (group3 ds) = length ds + (length ds - 1) div 3"
  by (induction ds rule: group3.induct) auto

lemma group3_comma_count:
  "CHR '','' \<notin> set ds \<Longrightarrow>
   length (filter (\<lambda>c. c = CHR '','') (group3 ds)) = (length ds - 1) div 3"
proof -
  assume d: "CHR '','' \<notin> set ds"
  have "length (filter (\<lambda>c. c = CHR '','') (group3 ds)) +
        length (filter (\<lambda>c. c \<noteq> CHR '','') (group3 ds)) = length (group3 ds)"
    by (rule sum_length_filter_compl)
  then show ?thesis using d by (simp add: length_group3)
qed

lemma group3_short: "length ds < 4 \<Longrightarrow> group3 ds = ds"
  by (cases ds rule: group3.cases) auto

lemma short_comma_at:
  assumes "length ds < 4" and "CHR '','' \<notin> set ds" and "k < length ds"
  shows "(ds ! k = CHR '','') \<longleftrightarrow> k mod 4 = 3"
proof -
  have "ds ! k \<noteq> CHR '',''" using assms(2,3) nth_mem by metis
  moreover have "k mod 4 \<noteq> 3" using assms(1,3) by simp
  ultimately show ?thesis by simp
qed

lemma group3_comma_at:
  "CHR '','' \<notin> set ds \<Longrightarrow> k < length (group3 ds) \<Longrightarrow>
     (group3 ds ! k = CHR '','') \<longleftrightarrow> k mod 4 = 3"
proof (induction ds arbitrary: k rule: group3.induct)
  case (1 a b c d r)
  show ?case
  proof (cases "k < 4")
    case True
    then have "k = 0 \<or> k = 1 \<or> k = 2 \<or> k = 3" by arith
    with "1.prems" show ?thesis by auto
  next
    case False
    define j where "j = k - 4"
    with False have k: "k = Suc (Suc (Suc (Suc j)))" by simp
    with "1.prems" have "j < length (group3 (d # r))" by simp
    with "1.IH" "1.prems" have "(group3 (d # r) ! j = CHR '','') \<longleftrightarrow> j mod 4 = 3" by simp
    moreover have "Suc (Suc (Suc (Suc j))) mod 4 = j mod 4" by presburger
    ultimately show ?thesis using k by simp
  qed
qed (simp_all add: short_comma_at)
lemma parse_int_nonneg: "s \<noteq> [] \<Longrightarrow> hd s \<noteq> CHR ''-'' \<Longrightarrow> parse_int s = int (parse_nat s)"
  by (cases s) (auto simp: parse_int_def)

lemma pad4_show_nat:
  assumes "r < 10000"
  shows "length (pad4 (show_nat r)) = 4" and "parse_nat (pad4 (show_nat r)) = r"
    and "CHR ''.'' \<notin> set (pad4 (show_nat r))"
proof -
  have "length (show_nat r) \<le> 4"
    using assms by (intro length_show_nat_le) simp_all
  then show "length (pad4 (show_nat r)) = 4" by (simp add: pad4_def)
  show "parse_nat (pad4 (show_nat r)) = r" by (simp add: pad4_def)
  show "CHR ''.'' \<notin> set (pad4 (show_nat r))" by (simp add: pad4_def)
qed

subsection \<open>Round trips and the shape of the output\<close>

lemma py_format_comma_count:
  "length (filter (\<lambda>c. c = CHR '','') (py_format_comma i)) = (length (show_nat (nat \<bar>i\<bar>)) - 1) div 3"
  by (simp add: py_format_comma_def rev_filter [symmetric] group3_comma_count)

text \<open>
  C9: the thousands-separated rendering \<open>f"{n:,}"\<close> of an integer is its plain
  rendering \<open>str(n)\<close> with one comma per complete group of three digits inserted:
  deleting the commas gives \<open>str(n)\<close>, reading that back gives \<open>n\<close>, and a number
  of \<open>d\<close> digits carries exactly \<open>(d - 1) div 3\<close> commas.
\<close>

theorem py_format_comma_roundtrip:
  "filter (\<lambda>c. c \<noteq> CHR '','') (py_format_comma i) = py_str_int i \<and>
   parse_int (filter (\<lambda>c. c \<noteq> CHR '','') (py_format_comma i)) = i \<and>
   length (filter (\<lambda>c. c = CHR '','') (py_format_comma i)) = (length (show_nat (nat \<bar>i\<bar>)) - 1) div 3"
  by (simp add: py_format_comma_count)

text \<open>
  C14: in the rendering of a non-negative integer with \<open>,\<close>, read from the right, a
  character is a comma exactly at every fourth position: the digits come in groups of
  three from the right, separated by single commas.
\<close>

theorem py_format_comma_groups:
  assumes "0 \<le> i" and "k < length (py_format_comma i)"
  shows "rev (py_format_comma i) ! k = CHR '','' \<longleftrightarrow> k mod 4 = 3"
proof -
  have "py_format_comma i = rev (group3 (rev (show_nat (nat i))))"
    using assms(1) by (simp add: py_format_comma_def)
  with assms(2) show ?thesis by (simp add: group3_comma_at)
qed

theorem py_format_comma_groups_witness:
  "0 \<le> (14000000000::int) \<and> rev (py_format_comma 14000000000) ! 3 = CHR '',''"
proof -
  have l: "3 < length (py_format_comma 14000000000)"
    by (simp add: py_format_comma_def show_nat.simps digit_char_def)
  show ?thesis using py_format_comma_groups [OF _ l] by simp
qed

lemma parse_fmt_fixed4 [simp]: "parse_fixed4 (fmt_fixed4 i) = i"
proof -
  let ?q = "nat \<bar>i\<bar> div 10000" and ?r = "nat \<bar>i\<bar> mod 10000"
  let ?s = "if i < 0 then ''-'' else []"
  have r: "?r < 10000" by simp
  have body: "parse_nat (show_nat ?q @ pad4 (show_nat ?r)) = nat \<bar>i\<bar>"
    using pad4_show_nat [OF r] by (simp add: parse_nat_append)
  have "filter (\<lambda>c. c \<noteq> CHR ''.'') (fmt_fixed4 i) = ?s @ show_nat ?q @ pad4 (show_nat ?r)"
    using pad4_show_nat(3) [OF r] by (simp add: fmt_fixed4_def)
  moreover have "parse_int (?s @ show_nat ?q @ pad4 (show_nat ?r)) = i"
    using body show_nat_hd [of ?q] by (auto simp: parse_int_nonneg)
  ultimately show ?thesis by (simp add: parse_fixed4_def)
qed

text \<open>
  C15: the hover text's \<open>.4f\<close> rendering of a coordinate has exactly four digits after
  its decimal point and reads back to the stored coordinate.
\<close>

theorem fmt_fixed4_roundtrip:
  "parse_fixed4 (fmt_fixed4 i) = i \<and>
   (\<exists>p f. fmt_fixed4 i = p @ CHR ''.'' # f \<and> length f = 4 \<and> CHR ''.'' \<notin> set f)"
proof
  show "parse_fixed4 (fmt_fixed4 i) = i" by simp
  let ?q = "nat \<bar>i\<bar> div 10000" and ?r = "nat \<bar>i\<bar> mod 10000"
  let ?s = "if i < 0 then ''-'' else []"
  have r: "?r < 10000" by simp
  have "fmt_fixed4 i = (?s @ show_nat ?q) @ CHR ''.'' # pad4 (show_nat ?r)"
    by (simp add: fmt_fixed4_def)
  then show "\<exists>p f. fmt_fixed4 i = p @ CHR ''.'' # f \<and> length f = 4 \<and> CHR ''.'' \<notin> set f"
    using pad4_show_nat(1,3) [OF r] by blast
qed

end
