(* ===== verification/Globe.thy ===== *)
theory Globe
  imports Dataset Format
begin

text \<open>
  \<open>create_enhanced_globe_visualization\<close> of \<open>src/hackuwo24.py\<close> (lines 168--246).
  \<^item> Marker sizes (line 173): \<open>np.log1p(wind_speed) * 25\<close> on the integer column, a
    float: \<open>log1p\<close> is \<open>ln (1 + w)\<close> for \<open>w > -1\<close>, \<open>-inf\<close> at \<open>-1\<close> and \<open>nan\<close>
    below (\<open>pyfloat\<close>); \<open>marker_size\<close> is one element.
  \<^item> The trace (lines 176--200): \<open>go.Scattergeo\<close> validates \<open>marker.size\<close> against
    its minimum 0 (\<open>size_valid\<close>: \<open>nan\<close> and \<open>-inf\<close> fail the comparison) and raises
    \<open>ValueError\<close> otherwise; \<open>scattergeo_of\<close> is the trace built from a valid column,
    one \<open>geo_marker\<close> per input row, in row order.
  \<^item> The layout (lines 202--241): \<open>fig.update_layout\<close> merges its argument into the
    figure's layout key by key, recursively into \<open>geo\<close>; a layout argument is a
    \<open>layout_patch\<close> whose unset keys are \<open>None\<close>, \<open>layout_merge\<close> is the merge, and
    \<open>layout_call1\<close>, \<open>layout_call2\<close> are the two calls' arguments.
  \<^item> \<open>globe_body\<close> is the body of the \<open>try\<close>; \<open>create_enhanced_globe_visualization\<close>
    adds the \<open>except\<close> branch, which writes \<open>st.error\<close> into the enclosing container
    and returns \<open>None\<close>.
  \<^item> The hover template (line 198): \<open>render_template\<close> is Plotly's placeholder
    substitution and \<open>hover_segments\<close> its result for one marker. The placeholder
    \<open>%{marker.size*4}\<close> names no property of a point (Plotly resolves names as
    property paths and evaluates no arithmetic), so it stays in the text as written.
    \<open>hover_fields\<close> are the point's name, its coordinates in \<open>.4f\<close> and its marker
    size, the values the template's variables stand for.
  Marker sizes are computed on exact reals: numpy's float64 rounding is not modelled.
  The colour scale, opacity and line settings are kept as data; drawing is Plotly's.
\<close>

datatype pyfloat = Fin real | NegInf | NaN

definition log1p :: "int \<Rightarrow> pyfloat" where
  "log1p w = (if -1 < w then Fin (ln (1 + real_of_int w)) else if w = -1 then NegInf else NaN)"

primrec fmul :: "pyfloat \<Rightarrow> real \<Rightarrow> pyfloat" where
  "fmul (Fin x) c = Fin (x * c)"
| "fmul NegInf c = NegInf"
| "fmul NaN c = NaN"

definition marker_size :: "int \<Rightarrow> pyfloat" where
  "marker_size w = fmul (log1p w) 25"

primrec size_valid :: "pyfloat \<Rightarrow> bool" where
  "size_valid (Fin x) \<longleftrightarrow> 0 \<le> x"
| "size_valid NegInf \<longleftrightarrow> False"
| "size_valid NaN \<longleftrightarrow> False"

primrec fin_val :: "pyfloat \<Rightarrow> real" where
  "fin_val (Fin x) = x"
| "fin_val NegInf = 0"
| "fin_val NaN = 0"

subsection \<open>The trace\<close>

record geo_marker =
  gm_lon :: int
  gm_lat :: int
  gm_text :: string
  gm_size :: real
  gm_color :: int

record marker_style =
  ms_colorscale :: string
  ms_colorbar_title :: string
  ms_colorbar_titleside :: string
  ms_colorbar_titlefont_size :: nat
  ms_reversescale :: bool
  ms_opacity :: real
  ms_line_color :: string
  ms_line_width :: real

record scattergeo =
  sg_points :: "geo_marker list"
  sg_marker :: marker_style
  sg_hoverinfo :: string
  sg_hovertemplate :: string

definition globe_marker_style :: marker_style where
  "globe_marker_style =
     \<lparr>ms_colorscale = ''Inferno'', ms_colorbar_title = ''Wind Speed (km/h)'',
      ms_colorbar_titleside = ''right'', ms_colorbar_titlefont_size = 12,
      ms_reversescale = True, ms_opacity = 0.8, ms_line_color = ''rgb(40, 40, 40)'',
      ms_line_width = 0.5\<rparr>"

definition globe_hovertemplate :: string where
  "globe_hovertemplate =
     ''<b>%{text}</b><br>Latitude: %{lat:.4f}<br>Longitude: %{lon:.4f}<br>Wind Speed: %{marker.size*4} km/h<extra></extra>''"

definition geo_marker_of :: "typhoon \<Rightarrow> geo_marker" where
  "geo_marker_of r =
     \<lparr>gm_lon = longitude r, gm_lat = latitude r, gm_text = name r,
      gm_size = fin_val (marker_size (wind_speed r)), gm_color = wind_speed r\<rparr>"

definition scattergeo_of :: "typhoon list \<Rightarrow> scattergeo" where
  "scattergeo_of ds =
     \<lparr>sg_points = map geo_marker_of ds, sg_marker = globe_marker_style,
      sg_hoverinfo = ''text'', sg_hovertemplate = globe_hovertemplate\<rparr>"

definition hover_fields :: "geo_marker \<Rightarrow> string \<times> string \<times> string \<times> real" where
  "hover_fields m = (gm_text m, fmt_fixed4 (gm_lat m), fmt_fixed4 (gm_lon m), gm_size m)"

subsection \<open>The layout and its merge\<close>

record geo_patch =
  geo_showland :: "bool option"
  geo_landcolor :: "string option"
  geo_countrycolor :: "string option"
  geo_coastlinecolor :: "string option"
  geo_projection_type :: "string option"
  geo_showocean :: "bool option"
  geo_oceancolor :: "string option"
  geo_showcountries :: "bool option"
  geo_showcoastlines :: "bool option"
  geo_scope :: "string option"
  geo_showframe :: "bool option"
  geo_projection_rotation :: "(int \<times> int \<times> int) option"

record title_spec =
  ts_text :: string
  ts_y :: real
  ts_x :: real
  ts_xanchor :: string
  ts_yanchor :: string
  ts_font_size :: nat

record layout_patch =
  lp_title :: "title_spec option"
  lp_geo :: geo_patch
  lp_height :: "nat option"
  lp_width :: "nat option"
  lp_margin :: "(nat \<times> nat \<times> nat \<times> nat) option"
  lp_paper_bgcolor :: "string option"
  lp_plot_bgcolor :: "string option"

definition opt_merge :: "'a option \<Rightarrow> 'a option \<Rightarrow> 'a option" where
  "opt_merge a b = (case b of None \<Rightarrow> a | Some x \<Rightarrow> Some x)"

definition geo_empty :: geo_patch where
  "geo_empty =
     \<lparr>geo_showland = None, geo_landcolor = None, geo_countrycolor = None,
      geo_coastlinecolor = None, geo_projection_type = None, geo_showocean = None,
      geo_oceancolor = None, geo_showcountries = None, geo_showcoastlines = None,
      geo_scope = None, geo_showframe = None, geo_projection_rotation = None\<rparr>"

definition layout_empty :: layout_patch where
  "layout_empty =
     \<lparr>lp_title = None, lp_geo = geo_empty, lp_height = None, lp_width = None,
      lp_margin = None, lp_paper_bgcolor = None, lp_plot_bgcolor = None\<rparr>"

definition geo_merge :: "geo_patch \<Rightarrow> geo_patch \<Rightarrow> geo_patch" where
  "geo_merge g h =
     \<lparr>geo_showland = opt_merge (geo_showland g) (geo_showland h),
      geo_landcolor = opt_merge (geo_landcolor g) (geo_landcolor h),
      geo_countrycolor = opt_merge (geo_countrycolor g) (geo_countrycolor h),
      geo_coastlinecolor = opt_merge (geo_coastlinecolor g) (geo_coastlinecolor h),
      geo_projection_type = opt_merge (geo_projection_type g) (geo_projection_type h),
      geo_showocean = opt_merge (geo_showocean g) (geo_showocean h),
      geo_oceancolor = opt_merge (geo_oceancolor g) (geo_oceancolor h),
      geo_showcountries = opt_merge (geo_showcountries g) (geo_showcountries h),
      geo_showcoastlines = opt_merge (geo_showcoastlines g) (geo_showcoastlines h),
      geo_scope = opt_merge (geo_scope g) (geo_scope h),
      geo_showframe = opt_merge (geo_showframe g) (geo_showframe h),
      geo_projection_rotation = opt_merge (geo_projection_rotation g) (geo_projection_rotation h)\<rparr>"

definition layout_merge :: "layout_patch \<Rightarrow> layout_patch \<Rightarrow> layout_patch" where
  "layout_merge l m =
     \<lparr>lp_title = opt_merge (lp_title l) (lp_title m),
      lp_geo = geo_merge (lp_geo l) (lp_geo m),
      lp_height = opt_merge (lp_height l) (lp_height m),
      lp_width = opt_merge (lp_width l) (lp_width m),
      lp_margin = opt_merge (lp_margin l) (lp_margin m),
      lp_paper_bgcolor = opt_merge (lp_paper_bgcolor l) (lp_paper_bgcolor m),
      lp_plot_bgcolor = opt_merge (lp_plot_bgcolor l) (lp_plot_bgcolor m)\<rparr>"

definition layout_call1 :: layout_patch where
  "layout_call1 =
     \<lparr>lp_title = Some \<lparr>ts_text = ''Typhoon Global Impact Visualization'', ts_y = 0.95,
                       ts_x = 0.5, ts_xanchor = ''center'', ts_yanchor = ''top'',
                       ts_font_size = 24\<rparr>,
      lp_geo = geo_empty\<lparr>geo_showland := Some True,
                         geo_landcolor := Some ''rgba(230, 230, 230, 0.7)'',
                         geo_countrycolor := Some ''rgba(180, 180, 180, 0.7)'',
                         geo_coastlinecolor := Some ''rgba(150, 150, 150, 0.7)'',
                         geo_projection_type := Some ''orthographic'',
                         geo_showocean := Some True,
                         geo_oceancolor := Some ''rgba(200, 230, 255, 0.5)'',
                         geo_showcountries := Some True,
                         geo_showcoastlines := Some True\<rparr>,
      lp_height = Some 900, lp_width = Some 1200, lp_margin = Some (0, 0, 50, 0),
      lp_paper_bgcolor = Some ''rgba(0,0,0,0)'', lp_plot_bgcolor = Some ''rgba(0,0,0,0)''\<rparr>"

definition layout_call2 :: layout_patch where
  "layout_call2 =
     layout_empty\<lparr>lp_geo := geo_empty\<lparr>geo_scope := Some ''world'',
                                        geo_showframe := Some False,
                                        geo_showcoastlines := Some True,
                                        geo_projection_rotation := Some (-100, 20, 0)\<rparr>\<rparr>"

record globe_figure =
  gf_trace :: scattergeo
  gf_layout :: layout_patch

definition update_layout :: "globe_figure \<Rightarrow> layout_patch \<Rightarrow> globe_figure" where
  "update_layout f p = f\<lparr>gf_layout := layout_merge (gf_layout f) p\<rparr>"

subsection \<open>The function\<close>

definition size_error_msg :: string where
  "size_error_msg = ''Invalid element(s) received for the 'size' property of scattergeo.marker''"

definition globe_figure_of :: "typhoon list \<Rightarrow> globe_figure" where
  "globe_figure_of ds =
     update_layout
       (update_layout \<lparr>gf_trace = scattergeo_of ds, gf_layout = layout_empty\<rparr> layout_call1)
       layout_call2"

definition globe_body :: "typhoon list \<Rightarrow> ('fig, globe_figure option) script" where
  "globe_body ds =
     (let sizes = map (\<lambda>r. marker_size (wind_speed r)) ds in
      if list_all size_valid sizes then ret (Some (globe_figure_of ds))
      else raise (ValueError size_error_msg))"

definition create_enhanced_globe_visualization ::
  "typhoon list \<Rightarrow> ('fig, globe_figure option) script" where
  "create_enhanced_globe_visualization ds =
     try_except (globe_body ds)
       (\<lambda>e. bind_run
              (emit [(MainArea, Error (''Error creating globe visualization: '' @ py_error_str e))])
              (\<lambda>_. ret None))"

subsection \<open>The hover text\<close>

text \<open>
  Plotly fills a \<open>hovertemplate\<close> by replacing each placeholder \<open>%{name}\<close> or
  \<open>%{name:format}\<close> (a name without blanks, \<open>%\<close>, braces or colons; a format from
  \<open>:\<close> or \<open>|\<close> to the closing brace) with the value of the point's property of that
  name, formatted; a name that is not a property of the point is left in the text as
  written. Names are property paths: nothing in them is evaluated. \<open>render_template\<close>
  is that substitution, returning the literal text and the substituted values with their
  formats (\<open>tmpl_seg\<close>); \<open>hover_props\<close> are the properties of a Scattergeo point
  that the template can name.
\<close>

datatype 'v tmpl_seg = Lit string | Var 'v string

datatype hover_val = HText string | HCoord int | HNum real

definition tmpl_excluded :: "char \<Rightarrow> bool" where
  "tmpl_excluded c \<longleftrightarrow> c \<in> set '' %{}:'' \<or> c = CHR 0x09 \<or> c = CHR 0x0A \<or> c = CHR 0x0D"

fun tmpl_format :: "string \<Rightarrow> string \<Rightarrow> (string \<times> string) option" where
  "tmpl_format acc [] = None"
| "tmpl_format acc (c # s) = (if c = CHR ''}'' then Some (rev acc, s) else tmpl_format (c # acc) s)"

fun tmpl_key :: "string \<Rightarrow> string \<Rightarrow> (string \<times> string \<times> string) option" where
  "tmpl_key acc [] = None"
| "tmpl_key acc (c # s) =
     (if c = CHR ''}'' then Some (rev acc, [], s)
      else if c = CHR '':'' \<or> c = CHR ''|'' then
        (case tmpl_format [c] s of None \<Rightarrow> None | Some (fm, r) \<Rightarrow> Some (rev acc, fm, r))
      else if tmpl_excluded c then None
      else tmpl_key (c # acc) s)"

definition lit_app :: "string \<Rightarrow> 'v tmpl_seg list \<Rightarrow> 'v tmpl_seg list" where
  "lit_app s segs = (case segs of Lit t # r \<Rightarrow> Lit (s @ t) # r | _ \<Rightarrow> Lit s # segs)"

definition hover_props :: "geo_marker \<Rightarrow> (string \<times> hover_val) list" where
  "hover_props m =
     [(''text'', HText (gm_text m)), (''lat'', HCoord (gm_lat m)), (''lon'', HCoord (gm_lon m)),
      (''marker.size'', HNum (gm_size m)), (''marker.color'', HNum (of_int (gm_color m)))]"

lemma tmpl_format_rest: "tmpl_format acc s = Some (fm, r) \<Longrightarrow> length r < length s"
  by (induction acc s rule: tmpl_format.induct) (auto split: if_splits)

lemma tmpl_key_rest: "tmpl_key acc s = Some (k, fm, r) \<Longrightarrow> length r < length s"
  by (induction acc s rule: tmpl_key.induct) (auto split: if_splits option.splits dest: tmpl_format_rest)

function render_template :: "(string \<Rightarrow> 'v option) \<Rightarrow> string \<Rightarrow> 'v tmpl_seg list" where
  "render_template f [] = []"
| "render_template f (c # s) =
     (if c = CHR ''%'' \<and> take 1 s = ''{'' then
        (case tmpl_key [] (drop 1 s) of
           None \<Rightarrow> lit_app [c] (render_template f s)
         | Some (k, fm, r) \<Rightarrow>
             (case f k of
                Some v \<Rightarrow> Var v fm # render_template f r
              | None \<Rightarrow> lit_app (''%{'' @ k @ fm @ ''}'') (render_template f r)))
      else lit_app [c] (render_template f s))"
  by pat_completeness auto
termination
  by (relation "measure (\<lambda>(f, s). length s)") (auto dest!: tmpl_key_rest)

definition hover_segments :: "geo_marker \<Rightarrow> hover_val tmpl_seg list" where
  "hover_segments m = render_template (map_of (hover_props m)) globe_hovertemplate"

subsection \<open>Marker sizes, the function's branches, the layout\<close>

lemma marker_size_Fin:
  "-1 < w \<Longrightarrow> marker_size w = Fin (ln (1 + real_of_int w) * 25)"
  by (simp add: marker_size_def log1p_def)

lemma size_valid_marker_size [simp]: "size_valid (marker_size w) \<longleftrightarrow> 0 \<le> w"
proof (cases "-1 < w")
  case True
  then have "0 < 1 + real_of_int w" by simp
  with True show ?thesis by (simp add: marker_size_Fin)
next
  case False
  then show ?thesis by (simp add: marker_size_def log1p_def)
qed

lemma list_all_size_valid:
  "list_all size_valid (map (\<lambda>r. marker_size (wind_speed r)) ds) \<longleftrightarrow>
   list_all (\<lambda>r. 0 \<le> wind_speed r) ds"
  by (induction ds) auto

lemma globe_body_eq:
  "globe_body ds =
     (if list_all (\<lambda>r. 0 \<le> wind_speed r) ds then ret (Some (globe_figure_of ds))
      else raise (ValueError size_error_msg))"
  unfolding globe_body_def Let_def list_all_size_valid ..

lemma create_globe_eq_aux:
  "create_enhanced_globe_visualization ds =
     (if list_all (\<lambda>r. 0 \<le> wind_speed r) ds then ([], Inr (Some (globe_figure_of ds)))
      else ([(MainArea, Error (''Error creating globe visualization: '' @ size_error_msg))], Inr None))"
proof (cases "list_all (\<lambda>r. 0 \<le> wind_speed r) ds")
  case True
  then show ?thesis
    unfolding create_enhanced_globe_visualization_def globe_body_eq by (simp only: if_True ret_def try_except_ok)
next
  case False
  then show ?thesis
    unfolding create_enhanced_globe_visualization_def globe_body_eq
    by (simp only: if_False raise_def try_except_err bind_run_emit ret_def py_error_str.simps fst_conv snd_conv append_Nil2 append_Nil)
qed

lemma globe_points [simp]: "sg_points (gf_trace (globe_figure_of ds)) = map geo_marker_of ds"
  by (simp add: globe_figure_of_def update_layout_def scattergeo_of_def)

subsection \<open>Properties\<close>

text \<open>
  C2: building the globe never lets an exception escape. When every wind speed of the
  input is non-negative it writes nothing and returns the figure; otherwise Plotly's
  size validator raises, and the function writes exactly one error message into the
  enclosing container and returns \<open>None\<close>.
\<close>

theorem create_globe_branches:
  "create_enhanced_globe_visualization ds =
     (if list_all (\<lambda>r. 0 \<le> wind_speed r) ds then ([], Inr (Some (globe_figure_of ds)))
      else ([(MainArea, Error (''Error creating globe visualization: '' @ size_error_msg))], Inr None))"
  by (rule create_globe_eq_aux)

text \<open>
  C12: the hover text never shows a wind speed. For every row, Plotly substitutes the
  name and the two \<open>.4f\<close> coordinates, and the "Wind Speed" line keeps the literal text
  \<open>%{marker.size*4}\<close>: \<open>marker.size*4\<close> names no property of the point, and the
  template language does not evaluate the multiplication.
\<close>

theorem hover_wind_placeholder:
  "hover_segments (geo_marker_of r) =
     [Lit ''<b>'', Var (HText (name r)) [], Lit ''</b><br>Latitude: '',
      Var (HCoord (latitude r)) '':.4f'', Lit ''<br>Longitude: '',
      Var (HCoord (longitude r)) '':.4f'',
      Lit ''<br>Wind Speed: %{marker.size*4} km/h<extra></extra>'']"
  by (simp add: hover_segments_def globe_hovertemplate_def hover_props_def geo_marker_of_def
      lit_app_def tmpl_excluded_def)

text \<open>
  C20: every marker of the globe carries the name of a row of the input, and the
  \<open>.4f\<close> coordinates its hover text shows read back as that row's latitude and
  longitude exactly.
\<close>

theorem hover_coordinates_exact:
  "m \<in> set (sg_points (gf_trace (globe_figure_of ds))) \<Longrightarrow>
   \<exists>r \<in> set ds. gm_text m = name r \<and>
     parse_fixed4 (fst (snd (hover_fields m))) = latitude r \<and>
     parse_fixed4 (fst (snd (snd (hover_fields m)))) = longitude r"
  by (auto simp: hover_fields_def geo_marker_of_def)

theorem hover_coordinates_exact_witness:
  "parse_fixed4 (fst (snd (hover_fields (geo_marker_of (typhoon_data ! 0))))) = 112426"
  using hover_coordinates_exact [of "geo_marker_of (typhoon_data ! 0)" "[typhoon_data ! 0]"]
  by (simp add: typhoon_data_def)

end
