(* ===== verification/Details.thy ===== *)
theory Details
  imports Dataset Format
begin

text \<open>
  The detail panel of \<open>main\<close> (\<open>src/hackuwo24.py\<close>, lines 284--307, inside
  \<open>with col2:\<close>): a header \<open>"{name} Details"\<close>, the Markdown f-string of lines
  289--303 and the description under a sub-header. \<open>detail_markdown\<close> is that
  f-string character for character: it starts with the newline after the opening quotes,
  every line is indented by the twelve spaces of the source, the blank lines between the
  fields hold those twelve spaces, and it ends with the indentation before the closing
  quotes. Integers are rendered by \<open>py_str_int\<close>, the damage estimate by
  \<open>py_format_comma\<close> after a literal dollar sign. \<open>detail_panel\<close> writes the four
  widgets into the enclosing container. \<open>split_lines\<close> and \<open>md_lookup\<close> read the text
  back, for the round trip (C18).
\<close>

definition nl :: string where
  "nl = [CHR 0x0A]"

definition md_indent :: string where
  "md_indent = replicate 12 (CHR '' '')"

definition md_field :: "string \<Rightarrow> string \<Rightarrow> string" where
  "md_field label value = md_indent @ ''**'' @ label @ '':** '' @ value"

definition detail_markdown :: "typhoon \<Rightarrow> string" where
  "detail_markdown t =
     nl @ md_field ''Year'' (py_str_int (year t)) @ nl @ md_indent @ nl @
     md_field ''Category'' (category t) @ nl @ md_indent @ nl @
     md_field ''Wind Speed'' (py_str_int (wind_speed t) @ '' km/h'') @ nl @ md_indent @ nl @
     md_field ''Pressure'' (py_str_int (pressure t) @ '' hPa'') @ nl @ md_indent @ nl @
     md_field ''Region'' (region t) @ nl @ md_indent @ nl @
     md_field ''Damage Estimate'' (''$'' @ py_format_comma (damage_estimate_usd t)) @ nl @
       md_indent @ nl @
     md_field ''Fatalities'' (py_str_int (fatalities t)) @ nl @ md_indent"

definition detail_panel :: "string \<Rightarrow> typhoon \<Rightarrow> ('fig, unit) script" where
  "detail_panel selected t =
     emit [(MainArea, Header (selected @ '' Details'')),
           (MainArea, Markdown (detail_markdown t)),
           (MainArea, Subheader ''Description''),
           (MainArea, Write (description t))]"

subsection \<open>Reading the panel back\<close>

text \<open>
  A reader of the Markdown text, for the round trip below: \<open>split_lines\<close> cuts a text
  at its newlines (Python's \<open>str.split\<close> on the newline character), and
  \<open>md_lookup label\<close> returns the rest of the first line that starts with the indented
  \<open>**label:** \<close>.
\<close>

fun split_lines :: "string \<Rightarrow> string list" where
  "split_lines [] = [[]]"
| "split_lines (c # s) =
     (if c = CHR 0x0A then [] # split_lines s
      else (case split_lines s of l # ls \<Rightarrow> (c # l) # ls | [] \<Rightarrow> [[c]]))"

fun md_lookup :: "string \<Rightarrow> string list \<Rightarrow> string option" where
  "md_lookup label [] = None"
| "md_lookup label (l # ls) =
     (if take (length (md_field label [])) l = md_field label []
      then Some (drop (length (md_field label [])) l) else md_lookup label ls)"

subsection \<open>Properties\<close>

lemma split_lines_no_nl [simp]: "CHR 0x0A \<notin> set a \<Longrightarrow> split_lines a = [a]"
  by (induction a) auto

lemma split_lines_nl [simp]:
  "CHR 0x0A \<notin> set a \<Longrightarrow> split_lines (a @ CHR 0x0A # b) = a # split_lines b"
  by (induction a) auto

lemma split_lines_detail_markdown:
  assumes "CHR 0x0A \<notin> set (category t)" and "CHR 0x0A \<notin> set (region t)"
  shows "split_lines (detail_markdown t) =
     [[], md_field ''Year'' (py_str_int (year t)), md_indent,
      md_field ''Category'' (category t), md_indent,
      md_field ''Wind Speed'' (py_str_int (wind_speed t) @ '' km/h''), md_indent,
      md_field ''Pressure'' (py_str_int (pressure t) @ '' hPa''), md_indent,
      md_field ''Region'' (region t), md_indent,
      md_field ''Damage Estimate'' (''$'' @ py_format_comma (damage_estimate_usd t)), md_indent,
      md_field ''Fatalities'' (py_str_int (fatalities t)), md_indent]"
  using assms
  by (simp add: detail_markdown_def nl_def md_field_def md_indent_def flip: append_assoc)

lemma md_field_prefix: "md_field label v = md_field label [] @ v"
  by (simp add: md_field_def)

lemma md_lookup_field [simp]: "md_lookup label (md_field label v # ls) = Some v"
  by (subst md_field_prefix) simp

lemma md_lookup_skip:
  "take (length (md_field label [])) l \<noteq> md_field label [] \<Longrightarrow>
   md_lookup label (l # ls) = md_lookup label ls"
  by simp

lemma md_lookup_indent [simp]: "md_lookup label (md_indent # ls) = md_lookup label ls"
  by (rule md_lookup_skip) (simp add: md_field_def)

lemma md_lookup_Nil_line [simp]: "md_lookup label ([] # ls) = md_lookup label ls"
  by (rule md_lookup_skip) (simp add: md_field_def)

text \<open>
  C18: the detail panel shows the selected row faithfully, for every row whose category
  and region are one-line texts: reading its Markdown back line by line gives the year,
  wind speed, pressure, damage estimate (commas removed) and fatality count as the
  row's integers, and the category and region as the row's texts.
\<close>

theorem detail_markdown_roundtrip:
  assumes "CHR 0x0A \<notin> set (category t)" and "CHR 0x0A \<notin> set (region t)"
  shows "let L = split_lines (detail_markdown t) in
         map_option parse_int (md_lookup ''Year'' L) = Some (year t) \<and>
         md_lookup ''Category'' L = Some (category t) \<and>
         map_option (\<lambda>v. parse_int (takeWhile (\<lambda>c. c \<noteq> CHR '' '') v)) (md_lookup ''Wind Speed'' L) =
           Some (wind_speed t) \<and>
         map_option (\<lambda>v. parse_int (takeWhile (\<lambda>c. c \<noteq> CHR '' '') v)) (md_lookup ''Pressure'' L) =
           Some (pressure t) \<and>
         md_lookup ''Region'' L = Some (region t) \<and>
         map_option (\<lambda>v. parse_int (filter (\<lambda>c. c \<noteq> CHR '','') (tl v))) (md_lookup ''Damage Estimate'' L) =
           Some (damage_estimate_usd t) \<and>
         map_option parse_int (md_lookup ''Fatalities'' L) = Some (fatalities t)"
  by (simp add: split_lines_detail_markdown [OF assms] Let_def md_lookup_skip
      md_field_def md_indent_def)

theorem detail_markdown_roundtrip_witness:
  "md_lookup ''Region'' (split_lines (detail_markdown (typhoon_data ! 0))) = Some ''Philippines''"
  using detail_markdown_roundtrip [of "typhoon_data ! 0"] by (simp add: typhoon_data_def Let_def)

end
