(* ===== verification/Scatter.thy ===== *)
theory Scatter
  imports Dataset
begin

text \<open>
  The comparative scatter plot of \<open>main\<close> (\<open>src/hackuwo24.py\<close>, lines 312--335):
  \<open>px.scatter(typhoon_data, x='wind_speed', y='damage_estimate_usd', color='year',
  hover_name='name', size='fatalities', labels=..., title=...)\<close> over the whole table,
  then \<open>update_layout(height=500, width=1000, margin=...)\<close>.
  \<^item> \<open>px_scatter\<close>: Plotly Express makes one point per row, in row order
    (\<open>scatter_point\<close>); the year is a continuous colour, so there is one trace. With
    \<open>size\<close> it sets \<open>sizemode = 'area'\<close> and \<open>sizeref = max(size) / size_max ** 2\<close>
    with the default \<open>size_max = 20\<close>, and passes the column as \<open>marker.size\<close>, which
    the figure validates against its minimum 0: a negative fatality count raises
    \<open>ValueError\<close>.
  \<^item> \<open>scatter_update_layout\<close>: the layout call of lines 329--333.
  How Plotly draws the points (pixel sizes) is not modelled: only the figure data the
  program hands to it.
\<close>

record scatter_point =
  sp_x :: int
  sp_y :: int
  sp_color :: int
  sp_size :: int
  sp_hover :: string

record scatter_figure =
  sf_points :: "scatter_point list"
  sf_labels :: "(string \<times> string) list"
  sf_title :: string
  sf_sizeref :: real
  sf_height :: "nat option"
  sf_width :: "nat option"
  sf_margin :: "(nat \<times> nat \<times> nat \<times> nat) option"

definition size_max :: nat where
  "size_max = 20"

definition scatter_point_of :: "typhoon \<Rightarrow> scatter_point" where
  "scatter_point_of r =
     \<lparr>sp_x = wind_speed r, sp_y = damage_estimate_usd r, sp_color = year r,
      sp_size = fatalities r, sp_hover = name r\<rparr>"

definition max_fatalities :: "typhoon list \<Rightarrow> int" where
  "max_fatalities ds = Max (insert 0 (fatalities ` set ds))"

definition scatter_labels :: "(string \<times> string) list" where
  "scatter_labels =
     [(''wind_speed'', ''Wind Speed (km/h)''),
      (''damage_estimate_usd'', ''Damage Estimate (USD)''),
      (''fatalities'', ''Fatalities'')]"

definition scatter_figure_of :: "typhoon list \<Rightarrow> scatter_figure" where
  "scatter_figure_of ds =
     \<lparr>sf_points = map scatter_point_of ds, sf_labels = scatter_labels,
      sf_title = ''Typhoon Impact: Wind Speed, Damage, and Fatalities'',
      sf_sizeref = real_of_int (max_fatalities ds) / real (size_max ^ 2),
      sf_height = None, sf_width = None, sf_margin = None\<rparr>"

definition px_scatter :: "typhoon list \<Rightarrow> ('fig, scatter_figure) script" where
  "px_scatter ds =
     (if list_all (\<lambda>r. 0 \<le> fatalities r) ds then ret (scatter_figure_of ds)
      else raise (ValueError ''Invalid element(s) received for the 'size' property of scatter.marker''))"

definition scatter_update_layout :: "scatter_figure \<Rightarrow> scatter_figure" where
  "scatter_update_layout f =
     f\<lparr>sf_height := Some 500, sf_width := Some 1000, sf_margin := Some (50, 50, 50, 50)\<rparr>"

lemma px_scatter_eq:
  "px_scatter ds =
     (if list_all (\<lambda>r. 0 \<le> fatalities r) ds then ([], Inr (scatter_figure_of ds))
      else ([], Inl (ValueError ''Invalid element(s) received for the 'size' property of scatter.marker'')))"
  by (simp add: px_scatter_def ret_def raise_def)

end
