(* ===== verification/Page.thy ===== *)
theory Page
  imports Frame Globe Details Scatter
begin

text \<open>
  \<open>main\<close> of \<open>src/hackuwo24.py\<close> (lines 248--338) and the interaction that re-runs it.
  \<^item> \<open>figure\<close> instantiates the page's chart type with the two figures the script
    builds.
  \<^item> The select box (lines 262--267): its options are the keys of \<open>typhoon_info\<close>,
    each labelled by \<open>format_func\<close> (\<open>select_label\<close>, which indexes the dict again);
    it returns the option at the widget's index, \<open>None\<close> when there are no options
    (\<open>selectbox_value\<close>). The widget's index is the only state that survives a
    re-run: \<open>session\<close>, with \<open>None\<close> before the user has chosen (index 0).
  \<^item> \<open>main_body\<close> is the body of the \<open>try\<close> in statement order; \<open>globe_column\<close> is
    the \<open>with col1:\<close> block, \<open>detail_panel\<close> the \<open>with col2:\<close> block and
    \<open>comparative_section\<close> lines 310--335. \<open>main\<close> adds the \<open>except\<close> of line 337,
    \<open>render_page\<close> is what one run writes.
  \<^item> \<open>ui_reach\<close>: the sessions a user can reach, one step per choice of an option.
  Strings with non-ASCII characters (page icon, title) are the UTF-8 bytes of the source.
\<close>

datatype figure = GlobeFig globe_figure | ScatterFig scatter_figure

record session =
  sel_index :: "nat option"

definition init_session :: session where
  "init_session = \<lparr>sel_index = None\<rparr>"

definition selected_index :: "session \<Rightarrow> nat" where
  "selected_index s = (case sel_index s of None \<Rightarrow> 0 | Some i \<Rightarrow> i)"

definition selectbox_value :: "string list \<Rightarrow> nat \<Rightarrow> string option" where
  "selectbox_value opts i = (if i < length opts then Some (opts ! i) else None)"

definition select_label :: "(string, typhoon) pydict \<Rightarrow> string \<Rightarrow> ('w, string) run" where
  "select_label info x =
     bind_run (dict_getitem info (Some x)) (\<lambda>r. ret (x @ '' ('' @ py_str_int (year r) @ '')''))"

definition page_icon :: string where
  "page_icon =
     [CHR 0xEF, CHR 0xA3, CHR 0xBF, CHR 0xC3, CHR 0xBC, CHR 0xC3, CHR 0xA5, CHR 0xE2, CHR 0x84,
      CHR 0xA2, CHR 0xC3, CHR 0x94, CHR 0xE2, CHR 0x88, CHR 0x8F, CHR 0xC3, CHR 0xA8]"

definition page_title :: string where
  "page_title =
     [CHR 0xEF, CHR 0xA3, CHR 0xBF, CHR 0xC3, CHR 0xBC, CHR 0xC3, CHR 0xA5, CHR 0xC3, CHR 0xA7]
     @ '' Global Typhoon Insights''"

definition globe_column :: "typhoon list \<Rightarrow> string \<Rightarrow> (figure, unit) script" where
  "globe_column ds n =
     bind_run (create_enhanced_globe_visualization (filter_name ds n))
       (\<lambda>fig. case fig of
                None \<Rightarrow> ret ()
              | Some f \<Rightarrow> emit [(MainArea, PlotlyChart (GlobeFig f) True)])"

definition comparative_section :: "typhoon list \<Rightarrow> (figure, unit) script" where
  "comparative_section ds =
     bind_run (emit [(MainArea, Header ''Typhoon Comparative Analysis'')])
       (\<lambda>_. bind_run (px_scatter ds)
              (\<lambda>f. emit [(MainArea, PlotlyChart (ScatterFig (scatter_update_layout f)) True)]))"

definition main_columns :: "typhoon list \<Rightarrow> string \<Rightarrow> typhoon \<Rightarrow> (figure, unit) script" where
  "main_columns ds n t =
     bind_run (emit [(MainArea, Columns [2, 1])])
       (\<lambda>_. bind_run (in_container (Column 0) (globe_column ds n))
       (\<lambda>_. bind_run (in_container (Column 1) (detail_panel n t))
       (\<lambda>_. comparative_section ds)))"

definition main_body :: "typhoon list \<Rightarrow> session \<Rightarrow> (figure, unit) script" where
  "main_body ds s =
     bind_run (emit [(MainArea, PageConfig ''Global Typhoon Tracker'' page_icon ''wide''),
                     (MainArea, Title page_title),
                     (Sidebar, Header ''Typhoon Explorer'')])
       (\<lambda>_. let info = typhoon_info ds; opts = dict_keys info; i = selected_index s in
        bind_run (run_map (select_label info) opts)
       (\<lambda>labels. bind_run (emit [(Sidebar, Selectbox ''Select Typhoon for Detailed View'' labels i)])
       (\<lambda>_. case selectbox_value opts i of
              None \<Rightarrow> bind_run (dict_getitem info None) (\<lambda>_. ret ())
            | Some n \<Rightarrow> bind_run (dict_getitem info (Some n)) (main_columns ds n))))"

definition main :: "typhoon list \<Rightarrow> session \<Rightarrow> (figure, unit) script" where
  "main ds s =
     try_except (main_body ds s)
       (\<lambda>e. emit [(MainArea, Error (''An error occurred: '' @ py_error_str e))])"

definition render_page :: "typhoon list \<Rightarrow> session \<Rightarrow> figure page" where
  "render_page ds s = fst (main ds s)"

inductive ui_reach :: "typhoon list \<Rightarrow> session \<Rightarrow> bool" for ds where
  start: "ui_reach ds init_session"
| choose: "ui_reach ds s \<Longrightarrow> i < length (dict_keys (typhoon_info ds)) \<Longrightarrow>
             ui_reach ds (s\<lparr>sel_index := Some i\<rparr>)"

inductive_cases ui_reach_chooseE: "ui_reach ds (s\<lparr>sel_index := Some i\<rparr>)"

subsection \<open>Evaluating one run\<close>

definition option_label :: "typhoon \<Rightarrow> string" where
  "option_label r = name r @ '' ('' @ py_str_int (year r) @ '')''"

definition page_head :: "typhoon list \<Rightarrow> nat \<Rightarrow> figure page" where
  "page_head ds i =
     [(MainArea, PageConfig ''Global Typhoon Tracker'' page_icon ''wide''),
      (MainArea, Title page_title),
      (Sidebar, Header ''Typhoon Explorer''),
      (Sidebar, Selectbox ''Select Typhoon for Detailed View'' (map option_label ds) i)]"

lemma run_map_select_label:
  assumes "distinct (map name ds)" and "set ds' \<subseteq> set ds"
  shows "run_map (select_label (typhoon_info ds)) (map name ds') = ret (map option_label ds')"
  using assms(2)
proof (induction ds')
  case Nil
  then show ?case by simp
next
  case (Cons r ds')
  then have "dict_get (typhoon_info ds) (name r) = Some r"
    using typhoon_info_get_row [OF assms(1)] by simp
  with Cons show ?case
    by (simp add: select_label_def dict_getitem_Some option_label_def)
qed

lemma main_body_selected:
  assumes d: "distinct (map name ds)" and i: "selected_index s < length ds"
  shows "main_body ds s =
           bind_run (emit (page_head ds (selected_index s)))
             (\<lambda>_. main_columns ds (name (ds ! selected_index s)) (ds ! selected_index s))"
proof -
  let ?i = "selected_index s" let ?t = "ds ! ?i"
  have t: "?t \<in> set ds" using i by simp
  have keys: "dict_keys (typhoon_info ds) = map name ds" using d by (rule typhoon_info_keys_names)
  have labels: "run_map (select_label (typhoon_info ds)) (map name ds) = ret (map option_label ds)"
    using d by (rule run_map_select_label) simp
  have sel: "selectbox_value (map name ds) ?i = Some (name ?t)"
    using i by (simp add: selectbox_value_def)
  have get: "dict_getitem (typhoon_info ds) (Some (name ?t)) = ret ?t"
    using typhoon_info_get_row [OF d t] by (rule dict_getitem_Some)
  show ?thesis
    by (simp add: main_body_def Let_def keys labels sel get page_head_def emit_def)
qed

lemma globe_column_eq:
  "globe_column ds n =
     (if list_all (\<lambda>r. 0 \<le> wind_speed r) (filter_name ds n)
      then ([(MainArea, PlotlyChart (GlobeFig (globe_figure_of (filter_name ds n))) True)], Inr ())
      else ([(MainArea, Error (''Error creating globe visualization: '' @ size_error_msg))], Inr ()))"
  by (simp add: globe_column_def create_globe_eq_aux emit_def ret_def)

lemma comparative_section_eq:
  "comparative_section ds =
     (if list_all (\<lambda>r. 0 \<le> fatalities r) ds
      then ([(MainArea, Header ''Typhoon Comparative Analysis''),
             (MainArea, PlotlyChart (ScatterFig (scatter_update_layout (scatter_figure_of ds))) True)],
            Inr ())
      else ([(MainArea, Header ''Typhoon Comparative Analysis'')],
            Inl (ValueError ''Invalid element(s) received for the 'size' property of scatter.marker'')))"
  by (simp add: comparative_section_def px_scatter_eq emit_def)

lemma main_columns_eq:
  "main_columns ds n t =
     ((MainArea, Columns [2, 1]) # map (retag (Column 0)) (fst (globe_column ds n)) @
      [(Column 1, Header (n @ '' Details'')), (Column 1, Markdown (detail_markdown t)),
       (Column 1, Subheader ''Description''), (Column 1, Write (description t))] @
      fst (comparative_section ds),
      snd (comparative_section ds))"
  by (simp add: main_columns_def globe_column_eq comparative_section_eq detail_panel_def emit_def)

lemma main_selected:
  assumes "distinct (map name ds)" and "selected_index s < length ds"
  shows "main ds s =
           try_except
             (page_head ds (selected_index s) @
                fst (main_columns ds (name (ds ! selected_index s)) (ds ! selected_index s)),
              snd (main_columns ds (name (ds ! selected_index s)) (ds ! selected_index s)))
             (\<lambda>e. emit [(MainArea, Error (''An error occurred: '' @ py_error_str e))])"
  using assms by (simp add: main_def main_body_selected bind_run_def emit_def)

lemma render_page_selected:
  assumes d: "distinct (map name ds)" and i: "selected_index s < length ds"
    and w: "list_all (\<lambda>r. 0 \<le> wind_speed r) ds" and f: "list_all (\<lambda>r. 0 \<le> fatalities r) ds"
  shows "render_page ds s =
           page_head ds (selected_index s) @
           [(MainArea, Columns [2, 1]),
            (Column 0, PlotlyChart (GlobeFig (globe_figure_of [ds ! selected_index s])) True),
            (Column 1, Header (name (ds ! selected_index s) @ '' Details'')),
            (Column 1, Markdown (detail_markdown (ds ! selected_index s))),
            (Column 1, Subheader ''Description''),
            (Column 1, Write (description (ds ! selected_index s))),
            (MainArea, Header ''Typhoon Comparative Analysis''),
            (MainArea, PlotlyChart (ScatterFig (scatter_update_layout (scatter_figure_of ds))) True)]"
proof -
  let ?t = "ds ! selected_index s"
  have flt: "filter_name ds (name ?t) = [?t]" using filter_name_unique_aux [OF d] i by simp
  have wt: "0 \<le> wind_speed ?t" using w i by (simp add: list_all_iff)
  show ?thesis
    using wt f
    by (simp add: render_page_def main_selected [OF d i] main_columns_eq globe_column_eq
        comparative_section_eq flt)
qed

lemma ui_reach_index:
  "ui_reach ds s \<Longrightarrow> ds \<noteq> [] \<Longrightarrow> selected_index s < length (dict_keys (typhoon_info ds))"
proof (induction rule: ui_reach.induct)
  case start
  have "dict_keys (typhoon_info ds) \<noteq> []"
    using start set_typhoon_info_keys [of ds] by (auto simp del: set_typhoon_info_keys)
  then show ?case by (simp add: init_session_def selected_index_def)
next
  case (choose s i)
  then show ?case by (simp add: selected_index_def)
qed

lemma ui_reach_choose_init:
  "i < length (dict_keys (typhoon_info ds)) \<Longrightarrow> ui_reach ds \<lparr>sel_index = Some i\<rparr>"
  using ui_reach.choose [OF ui_reach.start, of i] by (simp add: init_session_def)

end
