(* ===== verification/Session.thy ===== *)
theory Session
  imports Page
begin

text \<open>
  What one run of \<open>main\<close> writes, judged by Streamlit's rules, and what the sessions a
  user can reach make it do.
  \<^item> Page rules (Streamlit's API, not code of this repository): \<open>st.set_page_config\<close>
    is the first call of a run and is made once (\<open>is_page_config\<close>); a widget written
    inside \<open>with col:\<close> belongs to a column that \<open>st.columns\<close> created before, its index
    below the number of columns asked for (\<open>columns_declared\<close>). \<open>page_wf\<close> is both.
  \<^item> \<open>main_body_cases\<close> evaluates the body of \<open>main\<close> for every table and state: the
    option labels never fail, and the select box's index decides between the
    \<open>KeyError\<close> of line 270 and the two columns.
  The theorems: every run writes a well-formed page, for every table and state (C17);
  labelling the options never raises (C19); in a reachable session the run raises
  \<open>KeyError\<close> exactly for the empty table (C4); every row of a well-formed table can be
  shown by a reachable session (C11).
\<close>

subsection \<open>Streamlit's page rules\<close>

primrec is_page_config :: "'fig widget \<Rightarrow> bool" where
  "is_page_config (PageConfig t i l) = True"
| "is_page_config (Title s) = False"
| "is_page_config (Header s) = False"
| "is_page_config (Subheader s) = False"
| "is_page_config (Markdown s) = False"
| "is_page_config (Write s) = False"
| "is_page_config (Selectbox l os i) = False"
| "is_page_config (Columns ws) = False"
| "is_page_config (PlotlyChart f u) = False"
| "is_page_config (Error s) = False"

fun columns_declared :: "nat \<Rightarrow> 'fig page \<Rightarrow> bool" where
  "columns_declared n [] = True"
| "columns_declared n ((c, w) # p) =
     ((case c of Column i \<Rightarrow> i < n | _ \<Rightarrow> True) \<and>
      columns_declared (case w of Columns ws \<Rightarrow> length ws | _ \<Rightarrow> n) p)"

definition page_wf :: "'fig page \<Rightarrow> bool" where
  "page_wf p =
     (case p of
        [] \<Rightarrow> False
      | (c, w) # q \<Rightarrow> is_page_config w \<and> \<not> list_ex (\<lambda>x. is_page_config (snd x)) q \<and>
                     columns_declared 0 p)"

subsection \<open>Re-runs driven by select-box events\<close>

subsection \<open>The output of one run\<close>

lemma select_label_keys:
  "x \<in> set (dict_keys info) \<Longrightarrow>
     select_label info x = ret (x @ '' ('' @ py_str_int (year (the (dict_get info x))) @ '')'')"
  by (simp add: select_label_def dict_getitem_key)

lemma run_map_select_label_keys:
  "run_map (select_label info) (dict_keys info) =
     ret (map (\<lambda>x. x @ '' ('' @ py_str_int (year (the (dict_get info x))) @ '')'') (dict_keys info))"
  by (rule run_map_ret) (rule select_label_keys)

lemma main_body_cases:
  "main_body ds s =
     (let info = typhoon_info ds; opts = dict_keys info; i = selected_index s;
          pre = [(MainArea, PageConfig ''Global Typhoon Tracker'' page_icon ''wide''),
                 (MainArea, Title page_title), (Sidebar, Header ''Typhoon Explorer''),
                 (Sidebar, Selectbox ''Select Typhoon for Detailed View''
                    (map (\<lambda>x. x @ '' ('' @ py_str_int (year (the (dict_get info x))) @ '')'') opts) i)] in
      if i < length opts
      then (pre @ fst (main_columns ds (opts ! i) (the (dict_get info (opts ! i)))),
            snd (main_columns ds (opts ! i) (the (dict_get info (opts ! i)))))
      else (pre, Inl (KeyError ''None'')))"
proof -
  let ?info = "typhoon_info ds" let ?opts = "dict_keys ?info" let ?i = "selected_index s"
  have get: "dict_getitem ?info (Some (?opts ! ?i)) = ret (the (dict_get ?info (?opts ! ?i)))"
    if "?i < length ?opts"
    using that by (intro dict_getitem_key) (simp del: set_typhoon_info_keys)
  show ?thesis
    by (simp add: main_body_def Let_def run_map_select_label_keys selectbox_value_def get
        dict_getitem_None raise_def)
qed

lemma render_page_wf_aux: "page_wf (render_page ds s)"
proof (cases "selected_index s < length (dict_keys (typhoon_info ds))")
  case True
  then show ?thesis
    by (simp add: render_page_def main_def try_except_fst main_body_cases Let_def main_columns_eq
        globe_column_eq comparative_section_eq page_wf_def emit_def split: sum.split)
next
  case False
  then show ?thesis
    by (simp add: render_page_def main_def try_except_fst main_body_cases Let_def page_wf_def emit_def)
qed
lemma wf_dataset_lists:
  assumes "wf_dataset ds"
  shows "distinct (map name ds)" "list_all (\<lambda>r. 0 \<le> wind_speed r) ds"
        "list_all (\<lambda>r. 0 \<le> fatalities r) ds"
  using assms by (auto simp: wf_dataset_def wf_typhoon_def list_all_iff)

lemma ui_reach_index_rows:
  "ui_reach ds s \<Longrightarrow> distinct (map name ds) \<Longrightarrow> ds \<noteq> [] \<Longrightarrow> selected_index s < length ds"
  using ui_reach_index [of ds s] typhoon_info_keys_names [of ds] by simp

lemma dict_keys_typhoon_info_Nil [simp]: "dict_keys (typhoon_info []) = []"
  by (simp add: typhoon_info_def)

subsection \<open>Properties\<close>

text \<open>
  C17: whatever the table and the select box's state, the page of one run is well-formed
  for Streamlit: it starts with the page config, which is written once, and every widget
  written into a column comes after the \<open>st.columns\<close> call that created it, with an
  index below the number of columns (also on the error paths).
\<close>

theorem render_page_wf: "page_wf (render_page ds s)"
  by (rule render_page_wf_aux)

text \<open>
  C19: the select box's \<open>format_func\<close> never raises: for every table, labelling the
  options (each label indexes \<open>typhoon_info\<close> again) succeeds, and option \<open>n\<close> is
  labelled with the year of the last row named \<open>n\<close>.
\<close>

theorem option_labels_total:
  "run_map (select_label (typhoon_info ds)) (dict_keys (typhoon_info ds)) =
     ret (map (\<lambda>n. n @ '' ('' @ py_str_int (year (last (filter_name ds n))) @ '')'')
              (dict_keys (typhoon_info ds)))"
proof -
  have "the (dict_get (typhoon_info ds) n) = last (filter_name ds n)"
    if "n \<in> set (dict_keys (typhoon_info ds))" for n
  proof -
    have "filter_name ds n \<noteq> []"
      using that by (auto simp: filter_name_def filter_empty_conv)
    then show ?thesis by (simp add: typhoon_info_def fold_dict_set_get)
  qed
  then show ?thesis
    by (simp add: run_map_select_label_keys cong: map_cong del: set_typhoon_info_keys)
qed

text \<open>
  C4: in every session a user can reach, the run of \<open>main\<close>'s body raises \<open>KeyError\<close>
  exactly when the table is empty, and then for the key \<open>None\<close>: the select box
  returns \<open>None\<close> and \<open>typhoon_info[None]\<close> fails (line 270). Over a non-empty table
  the lookups of lines 266 and 270 always succeed.
\<close>

theorem main_body_key_error:
  assumes "ui_reach ds s"
  shows "snd (main_body ds s) = Inl (KeyError k) \<longleftrightarrow> ds = [] \<and> k = ''None''"
proof (cases "ds = []")
  case True
  then show ?thesis by (auto simp: main_body_cases Let_def)
next
  case False
  have i: "selected_index s < length (dict_keys (typhoon_info ds))"
    using ui_reach_index [OF assms False] .
  show ?thesis
    using False i
    by (simp add: main_body_cases Let_def main_columns_eq comparative_section_eq)
qed

theorem main_body_key_error_witness:
  "snd (main_body [] init_session) = Inl (KeyError ''None'') \<and>
   snd (main_body typhoon_data init_session) \<noteq> Inl (KeyError ''None'')"
proof
  show "snd (main_body [] init_session) = Inl (KeyError ''None'')"
    using main_body_key_error [of "[]" init_session "''None''", OF ui_reach.start] by simp
  show "snd (main_body typhoon_data init_session) \<noteq> Inl (KeyError ''None'')"
    using main_body_key_error [of typhoon_data init_session "''None''", OF ui_reach.start]
    by (simp add: typhoon_data_def)
qed

text \<open>
  C11: every row of a well-formed table can be displayed: for each row there is a
  session the user can reach by one choice whose page shows that row alone on the
  globe in the first column and its detail Markdown in the second.
\<close>

theorem every_row_displayable:
  assumes "wf_dataset ds" and "i < length ds"
  shows "\<exists>s. ui_reach ds s \<and>
             (Column 0, PlotlyChart (GlobeFig (globe_figure_of [ds ! i])) True) \<in> set (render_page ds s) \<and>
             (Column 1, Markdown (detail_markdown (ds ! i))) \<in> set (render_page ds s)"
proof -
  note l = wf_dataset_lists [OF assms(1)]
  let ?s = "\<lparr>sel_index = Some i\<rparr>"
  have r: "ui_reach ds ?s"
    using assms(2) typhoon_info_keys_names [OF l(1)] by (intro ui_reach_choose_init) simp
  have sel: "selected_index ?s = i" by (simp add: selected_index_def)
  have "selected_index ?s < length ds" using assms(2) sel by simp
  from render_page_selected [OF l(1) this l(2,3)] r sel show ?thesis by auto
qed

theorem every_row_displayable_witness:
  "\<exists>s. ui_reach typhoon_data s \<and>
       (Column 1, Markdown (detail_markdown (typhoon_data ! 5))) \<in> set (render_page typhoon_data s)"
proof -
  have "5 < length typhoon_data" by (simp add: typhoon_data_def)
  from every_row_displayable [OF typhoon_data_wf_dataset this] show ?thesis by blast
qed

end
