(* ===== verification/Spec2Isabelle.thy ===== *)
theory Spec2Isabelle
  imports Session
begin

text \<open>
  Verification development of the Global Typhoon Tracker, the Streamlit dashboard
  \<open>src/hackuwo24.py\<close> (HackWestern 24, Typhoon Data Visualizer).

  \<^bold>\<open>The program.\<close> One script. A fixed table \<open>typhoon_data\<close> of twelve typhoon rows
  (lines 8--166); \<open>create_enhanced_globe_visualization\<close> (168--246), which builds a
  Plotly orthographic globe with one marker per row of its input, sized
  \<open>log1p(wind_speed) * 25\<close>, and on any exception writes an error and returns
  \<open>None\<close>; and \<open>main\<close> (248--338), which Streamlit re-runs from the top on every
  interaction: page config and title, a sidebar select box over the table's names (the
  only state that survives a run: the widget's selected index), the globe of the rows
  whose name is the selected one (first column), the detail panel of the selected row
  (second column), and a scatter plot of the whole table; any exception in \<open>main\<close>
  writes one error message and ends the run.

  \<^bold>\<open>How it is modelled.\<close> A run of the script is a value of
  \<open>('fig, 'a) script\<close> (theory \<open>Prelude\<close>): the list of \<open>(container, widget)\<close>
  pairs it writes, in order, and either the exception it raised or its result. Python
  statements are sequenced by \<open>bind_run\<close>, \<open>try/except\<close> is \<open>try_except\<close>,
  \<open>with col:\<close> is \<open>in_container\<close>. Exceptions are values of \<open>py_error\<close>; their
  texts are kept to the key's \<open>repr\<close> (\<open>KeyError\<close>) and the validator's subject
  (\<open>ValueError\<close>). The theories, in dependency order:
  \<^item> \<open>Prelude\<close>: exceptions, containers and widgets, the statement combinators and
    their laws, list lemmas.
  \<^item> \<open>Dataset\<close>: the row record \<open>typhoon\<close> and the table \<open>typhoon_data\<close> (coordinates
    as exact ten-thousandths of a degree, Python ints as \<open>int\<close>), and the data-model
    invariant \<open>wf_dataset\<close> of the spec, which the table satisfies.
  \<^item> \<open>Frame\<close>: the dict comprehension \<open>typhoon_info\<close> as an insertion-ordered
    association list with Python's overwrite rule, \<open>typhoon_info[...]\<close> raising
    \<open>KeyError\<close>, the pandas row filter \<open>filter_name\<close>; the refinement of the dict to
    "last row with that name" and, under unique names, to the rows' association list
    (C3, C7, C8); its equivalence with a reference construction of the dict
    (\<open>dict_of_rows\<close>, C16).
  \<^item> \<open>Format\<close>: \<open>str\<close> of an int, the \<open>,\<close> format spec, the hover's \<open>.4f\<close>, with a
    reading side; round trips, the number of commas and their positions (C9, C14, C15).
  \<^item> \<open>Globe\<close>: \<open>log1p\<close> on Python floats (\<open>nan\<close>, \<open>-inf\<close>), the marker sizes,
    Plotly's size validation, the trace, the layout as patches merged by
    \<open>update_layout\<close>, the function with its \<open>except\<close> branch (C2); Plotly's
    hover-template substitution, under which the "Wind Speed" line shows its
    placeholder and no number (C12), and the hover's coordinates, which read back
    exactly (C20).
  \<^item> \<open>Details\<close>: the detail panel and its Markdown f-string, character for character,
    and a reader of it: the panel shows every row's values faithfully (C18).
  \<^item> \<open>Scatter\<close>: \<open>px.scatter\<close> (one point per row, \<open>sizeref\<close>, validation of the
    size column) and the layout call.
  \<^item> \<open>Page\<close>: the select box, \<open>main\<close> in statement order, \<open>render_page\<close>, and the
    sessions a user can reach (\<open>ui_reach\<close>, an inductive step relation: Streamlit
    re-runs the script after every choice, and the choice, an index among the
    options the browser offers, is the only state that survives a run).
  \<^item> \<open>Session\<close>: Streamlit's page rules (\<open>page_wf\<close>: page config first and once,
    columns created before they are written to) and the run of \<open>main\<close>'s body for every
    table and state. Every run's page is well-formed (C17); the select box's
    \<open>format_func\<close> never raises (C19); in a reachable session the run raises
    \<open>KeyError\<close> exactly for the empty table (C4); every row can be shown (C11).
  \<^item> this theory: what one run writes, for every reachable session of a well-formed
    table (C1), the scatter plot's independence of the selection (C10), and the error
    paths of the page: a negative fatality count (C5), a negative wind speed (C6),
    duplicate names (C13).

  \<^bold>\<open>Bounds and choices.\<close> No fuel is needed: the script has no loop beyond the
  comprehension and the option labels, both structural recursions over the table; the
  one non-structural recursion, Plotly's template scan \<open>render_template\<close>, terminates
  by the length of the remaining template. Coordinates are integers of \<open>1e-4\<close>
  degrees because every literal of the table has at most four decimals, so the
  \<open>.4f\<close> rendering of the nearest double is the literal. Marker sizes are exact
  reals: numpy's float64 rounding is not modelled, and no theorem depends on it.

  \<^bold>\<open>Not modelled.\<close> Streamlit's serving of the page (server, websocket, browser)
  and the state of widget kinds the program does not use; Plotly's drawing
  (projection, colour scale, marker sizes in pixels); the deprecated colour-bar keys
  \<open>titleside\<close> and \<open>titlefont\<close>, which Plotly 5 accepts and Plotly 6 rejects: under Plotly 6 every
  globe would take the \<open>except\<close> branch, a behaviour of the library version, not of
  this code.
\<close>

subsection \<open>What a run writes\<close>

text \<open>
  C1: for a table satisfying the data-model invariant and any session a user can reach,
  one run writes no error and exactly this page, in this order: the page config, the
  title, the sidebar header and select box, the two columns, the globe of the selected
  row alone in the first column, the selected row's detail panel in the second, and the
  comparative section with the scatter plot of the whole table.
\<close>

theorem render_reachable:
  assumes "wf_dataset ds" and "ds \<noteq> []" and "ui_reach ds s"
  shows "render_page ds s =
           page_head ds (selected_index s) @
           [(MainArea, Columns [2, 1]),
            (Column 0, PlotlyChart (GlobeFig (globe_figure_of [ds ! selected_index s])) True),
            (Column 1, Header (name (ds ! selected_index s) @ '' Details'')),
            (Column 1, Markdown (detail_markdown (ds ! selected_index s))),
            (Column 1, Subheader ''Description''),
            (Column 1, Write (description (ds ! selected_index s))),
            (MainArea, Header ''Typhoon Comparative Analysis''),
            (MainArea, PlotlyChart (ScatterFig (scatter_update_layout (scatter_figure_of ds))) True)]
         \<and> page_errors (render_page ds s) = []"
proof -
  note l = wf_dataset_lists [OF assms(1)]
  have i: "selected_index s < length ds" using ui_reach_index_rows [OF assms(3) l(1) assms(2)] .
  show ?thesis
    by (simp add: render_page_selected [OF l(1) i l(2,3)] page_head_def)
qed

theorem render_reachable_witness:
  "page_errors (render_page typhoon_data init_session) = []"
proof -
  have "typhoon_data \<noteq> []" by (simp add: typhoon_data_def)
  from render_reachable [OF typhoon_data_wf_dataset this ui_reach.start] show ?thesis
    by (rule conjunct2)
qed

text \<open>
  C10: the comparative scatter plot does not depend on the selection: in any two
  reachable sessions it is the same last widget of the page, with one point per row of
  the table, in table order.
\<close>

theorem scatter_independent:
  assumes "wf_dataset ds" and "ds \<noteq> []" and "ui_reach ds s" and "ui_reach ds s'"
  shows "last (render_page ds s) = last (render_page ds s') \<and>
         last (render_page ds s) =
           (MainArea, PlotlyChart (ScatterFig (scatter_update_layout (scatter_figure_of ds))) True) \<and>
         map sp_hover (sf_points (scatter_figure_of ds)) = map name ds"
proof -
  note l = wf_dataset_lists [OF assms(1)]
  have i: "selected_index s < length ds" "selected_index s' < length ds"
    using ui_reach_index_rows l(1) assms by auto
  show ?thesis
    by (simp add: render_page_selected [OF l(1) i(1) l(2,3)] render_page_selected [OF l(1) i(2) l(2,3)]
        scatter_figure_of_def scatter_point_of_def)
qed

theorem scatter_independent_witness:
  "last (render_page typhoon_data init_session) =
     last (render_page typhoon_data \<lparr>sel_index = Some 5\<rparr>)"
proof -
  have k: "dict_keys (typhoon_info typhoon_data) = map name typhoon_data"
    by (rule typhoon_info_keys_names [OF typhoon_data_names_distinct])
  have ne: "typhoon_data \<noteq> []" by (simp add: typhoon_data_def)
  have "5 < length (dict_keys (typhoon_info typhoon_data))"
    unfolding k by (simp add: typhoon_data_def)
  then have r: "ui_reach typhoon_data \<lparr>sel_index = Some 5\<rparr>" by (rule ui_reach_choose_init)
  from scatter_independent [OF typhoon_data_wf_dataset ne ui_reach.start r] show ?thesis by simp
qed

subsection \<open>Error paths of the page\<close>

text \<open>
  C5: when a row has a negative fatality count (which the table invariant excludes but
  the code does not check), the run still writes the globe and the detail panel; then
  \<open>px.scatter\<close> raises, and the page ends with the comparative header and the single
  top-level error message, without the scatter plot.
\<close>

theorem negative_fatalities_error:
  assumes "distinct (map name ds)" and "selected_index s < length ds"
    and "list_all (\<lambda>r. 0 \<le> wind_speed r) ds" and "\<not> list_all (\<lambda>r. 0 \<le> fatalities r) ds"
  shows "render_page ds s =
           page_head ds (selected_index s) @
           [(MainArea, Columns [2, 1]),
            (Column 0, PlotlyChart (GlobeFig (globe_figure_of [ds ! selected_index s])) True),
            (Column 1, Header (name (ds ! selected_index s) @ '' Details'')),
            (Column 1, Markdown (detail_markdown (ds ! selected_index s))),
            (Column 1, Subheader ''Description''),
            (Column 1, Write (description (ds ! selected_index s))),
            (MainArea, Header ''Typhoon Comparative Analysis''),
            (MainArea, Error (''An error occurred: Invalid element(s) received for the 'size' property of scatter.marker''))]"
proof -
  let ?t = "ds ! selected_index s"
  have flt: "filter_name ds (name ?t) = [?t]" using filter_name_unique_aux assms(1,2) by simp
  have wt: "0 \<le> wind_speed ?t" using assms(2,3) by (simp add: list_all_iff)
  show ?thesis
    using wt assms(4)
    by (simp add: render_page_def main_selected [OF assms(1,2)] main_columns_eq globe_column_eq
        comparative_section_eq flt emit_def)
qed

theorem negative_fatalities_error_witness:
  "last (render_page [(typhoon_data ! 0)\<lparr>fatalities := -1\<rparr>] init_session) =
     (MainArea, Error (''An error occurred: Invalid element(s) received for the 'size' property of scatter.marker''))"
proof -
  let ?ds = "[(typhoon_data ! 0)\<lparr>fatalities := -1\<rparr>]"
  have "distinct (map name ?ds)" "selected_index init_session < length ?ds"
       "list_all (\<lambda>r. 0 \<le> wind_speed r) ?ds" "\<not> list_all (\<lambda>r. 0 \<le> fatalities r) ?ds"
    by (simp_all add: typhoon_data_def init_session_def selected_index_def)
  from negative_fatalities_error [OF this] show ?thesis by (simp add: page_head_def)
qed

text \<open>
  C6: when the selected row has a negative wind speed, the globe's \<open>except\<close> branch
  writes its error into the first column and no globe, and the rest of the page (detail
  panel, comparative section, scatter plot) is written as usual.
\<close>

theorem negative_wind_globe_error:
  assumes "distinct (map name ds)" and "selected_index s < length ds"
    and "wind_speed (ds ! selected_index s) < 0" and "list_all (\<lambda>r. 0 \<le> fatalities r) ds"
  shows "render_page ds s =
           page_head ds (selected_index s) @
           [(MainArea, Columns [2, 1]),
            (Column 0, Error (''Error creating globe visualization: '' @ size_error_msg)),
            (Column 1, Header (name (ds ! selected_index s) @ '' Details'')),
            (Column 1, Markdown (detail_markdown (ds ! selected_index s))),
            (Column 1, Subheader ''Description''),
            (Column 1, Write (description (ds ! selected_index s))),
            (MainArea, Header ''Typhoon Comparative Analysis''),
            (MainArea, PlotlyChart (ScatterFig (scatter_update_layout (scatter_figure_of ds))) True)]"
proof -
  let ?t = "ds ! selected_index s"
  have flt: "filter_name ds (name ?t) = [?t]" using filter_name_unique_aux assms(1,2) by simp
  show ?thesis
    using assms(3,4)
    by (simp add: render_page_def main_selected [OF assms(1,2)] main_columns_eq globe_column_eq
        comparative_section_eq flt)
qed

theorem negative_wind_globe_error_witness:
  "page_errors (render_page [(typhoon_data ! 0)\<lparr>wind_speed := -5\<rparr>] init_session) =
     [''Error creating globe visualization: '' @ size_error_msg]"
proof -
  let ?ds = "[(typhoon_data ! 0)\<lparr>wind_speed := -5\<rparr>]"
  have "distinct (map name ?ds)" "selected_index init_session < length ?ds"
       "wind_speed (?ds ! selected_index init_session) < 0"
       "list_all (\<lambda>r. 0 \<le> fatalities r) ?ds"
    by (simp_all add: typhoon_data_def init_session_def selected_index_def)
  from negative_wind_globe_error [OF this] show ?thesis by (simp add: page_head_def)
qed

text \<open>
  C13: when two rows share a name, the select box lists the name once, labelled with the
  later row's year; the globe shows a marker for each of the two rows, while the detail
  panel describes only the later one.
\<close>

theorem duplicate_names_page:
  assumes "name a = name b" and "0 \<le> wind_speed a" and "0 \<le> wind_speed b"
    and "0 \<le> fatalities a" and "0 \<le> fatalities b"
  shows "render_page [a, b] init_session =
           [(MainArea, PageConfig ''Global Typhoon Tracker'' page_icon ''wide''),
            (MainArea, Title page_title),
            (Sidebar, Header ''Typhoon Explorer''),
            (Sidebar, Selectbox ''Select Typhoon for Detailed View'' [option_label b] 0),
            (MainArea, Columns [2, 1]),
            (Column 0, PlotlyChart (GlobeFig (globe_figure_of [a, b])) True),
            (Column 1, Header (name b @ '' Details'')),
            (Column 1, Markdown (detail_markdown b)),
            (Column 1, Subheader ''Description''),
            (Column 1, Write (description b)),
            (MainArea, Header ''Typhoon Comparative Analysis''),
            (MainArea, PlotlyChart (ScatterFig (scatter_update_layout (scatter_figure_of [a, b]))) True)]"
proof -
  have info: "typhoon_info [a, b] = [(name a, b)]" using assms(1) by (simp add: typhoon_info_def)
  have flt: "filter_name [a, b] (name b) = [a, b]" using assms(1) by (simp add: filter_name_def)
  show ?thesis
    using assms
    by (simp add: render_page_def main_def main_body_def info dict_keys_def init_session_def
        selected_index_def selectbox_value_def select_label_def dict_getitem_def dict_get_def
        option_label_def main_columns_eq globe_column_eq comparative_section_eq flt emit_def ret_def)
qed

theorem duplicate_names_page_witness:
  "(Column 1, Markdown (detail_markdown ((typhoon_data ! 1)\<lparr>name := ''Typhoon Haiyan''\<rparr>)))
     \<in> set (render_page [typhoon_data ! 0, (typhoon_data ! 1)\<lparr>name := ''Typhoon Haiyan''\<rparr>] init_session)"
proof -
  let ?a = "typhoon_data ! 0" and ?b = "(typhoon_data ! 1)\<lparr>name := ''Typhoon Haiyan''\<rparr>"
  have "name ?a = name ?b" "0 \<le> wind_speed ?a" "0 \<le> wind_speed ?b"
       "0 \<le> fatalities ?a" "0 \<le> fatalities ?b"
    by (simp_all add: typhoon_data_def)
  from duplicate_names_page [OF this] show ?thesis by simp
qed

end
